theory Spec2Isabelle
  imports Complex_Main "HOL-Library.Word" "HOL-Library.Signed_Division"
begin

unbundle bit_operations_syntax

section \<open>Coordinate helpers (internal/doa/source.go)\<close>

text \<open>
  In the sections on the readings, the sources and the tracker, Go's \<^verbatim>\<open>float64\<close> is
  idealised as \<^typ>\<open>real\<close> and \<^verbatim>\<open>math.Pi\<close> is \<^term>\<open>pi\<close>: the properties proved
  there (the latch, the smoothing law, the base score, the state of the sources) do not
  turn on rounding. The range of \<^verbatim>\<open>NormalizeAngle\<close> and the value of the confidence
  score do: they are modelled in binary64, in the sections after the cloud client.
\<close>

definition ToEvaAngle :: "real \<Rightarrow> real" where
  "ToEvaAngle xvfAngle = (pi / 2) - xvfAngle"

definition FromEvaAngle :: "real \<Rightarrow> real" where
  "FromEvaAngle evaAngle = (pi / 2) - evaAngle"

definition Clamp :: "real \<Rightarrow> real \<Rightarrow> real \<Rightarrow> real" where
  "Clamp v lo hi = (if v < lo then lo else if v > hi then hi else v)"


section \<open>Time and machine integers\<close>

text \<open>
  A \<^verbatim>\<open>time.Duration\<close> is an \<^verbatim>\<open>int64\<close> count of nanoseconds: a 64-bit word read
  with \<^const>\<open>sint\<close>, so that \<^verbatim>\<open>backoff *= 2\<close> wraps as in Go. An instant
  (\<^verbatim>\<open>time.Time\<close>) is an integer count of nanoseconds since the zero \<^verbatim>\<open>time.Time\<close>.
  \<^verbatim>\<open>Time.Sub\<close> (and \<^verbatim>\<open>time.Since\<close>, which is \<^verbatim>\<open>Now().Sub\<close>) saturates at
  the largest and smallest \<^verbatim>\<open>Duration\<close>. The clock is not read inside the model:
  every value returned by \<^verbatim>\<open>time.Now()\<close> is an argument.
\<close>

type_synonym Duration = "64 word"
type_synonym Time = int

definition maxDuration :: int where
  "maxDuration = 2 ^ 63 - 1"

definition minDuration :: int where
  "minDuration = - (2 ^ 63)"

definition time_Sub :: "Time \<Rightarrow> Time \<Rightarrow> Duration" where
  "time_Sub t u =
     (let d = t - u
      in if d > maxDuration then word_of_int maxDuration
         else if d < minDuration then word_of_int minDuration
         else word_of_int d)"

text \<open>\<^verbatim>\<open>Duration.Milliseconds\<close> is \<^verbatim>\<open>int64(d) / 1e6\<close>, truncating towards zero.\<close>

definition Milliseconds :: "Duration \<Rightarrow> 64 word" where
  "Milliseconds d = word_of_int (sint d sdiv 1000000)"

definition Millisecond :: Duration where
  "Millisecond = 1000000"

definition Second :: Duration where
  "Second = 1000000000"

section \<open>Readings (internal/doa/source.go)\<close>

record Reading =
  Angle :: real
  RawAngle :: real
  Speaking :: bool
  Timestamp :: Time
  LatencyMs :: "64 word"
  SpeechEnergy :: "real \<times> real \<times> real \<times> real"
  MicAzimuths :: "real \<times> real \<times> real \<times> real"
  TotalEnergy :: real

definition zero_Reading :: Reading where
  "zero_Reading =
     \<lparr>Angle = 0, RawAngle = 0, Speaking = False, Timestamp = 0, LatencyMs = 0,
      SpeechEnergy = (0, 0, 0, 0), MicAzimuths = (0, 0, 0, 0), TotalEnergy = 0\<rparr>"

definition referenceEnergy :: real where
  "referenceEnergy = 6267144"

definition EstimatedDistance :: "Reading \<Rightarrow> real" where
  "EstimatedDistance r =
     (if TotalEnergy r \<le> 0 \<or> \<not> Speaking r then 0
      else
        let distance = sqrt (referenceEnergy / TotalEnergy r);
            distance = (if distance < 0.3 then 0.3 else distance);
            distance = (if distance > 5.0 then 5.0 else distance)
        in distance)"

definition EstimatedY :: "Reading \<Rightarrow> real" where
  "EstimatedY r =
     (let dist = EstimatedDistance r
      in if dist \<le> 0 then 0 else dist * sin (Angle r))"

definition EstimatedX :: "Reading \<Rightarrow> real" where
  "EstimatedX r =
     (let dist = EstimatedDistance r
      in if dist \<le> 0 then 0 else dist * cos (Angle r))"

section \<open>Errors\<close>

text \<open>
  Go errors are values; each \<^verbatim>\<open>fmt.Errorf\<close> site of the modelled code is a
  constructor, \<open>External\<close> is an error handed in by a library or by the DOA source,
  and the wrapping sites (\<^verbatim>\<open>%w\<close>) keep the wrapped error.
\<close>

datatype error =
    External string
  | NotConnected
  | MarshalFailed error
  | MarshalDataFailed error
  | ParseFailed error
  | WriteFailed error
  | DialFailed error
  | DeviceClosed
  | ControlTransferFailed error
  | ShortRead int
  | ErrorStatus "8 word"
  | OpenFailed error
  | DeviceNotFound
  | NilDevice

section \<open>Tracker (package doa: src/internal/pollen/client.go, from line 259)\<close>

record ConfidenceConfig =
  Base :: real
  SpeakingBonus :: real
  StabilityBonus :: real

record TrackerConfig =
  PollInterval :: Duration
  SpeakingLatchDur :: Duration
  EMAAlpha :: real
  HistorySize :: int
  Confidence_cfg :: ConfidenceConfig

definition DefaultTrackerConfig :: TrackerConfig where
  "DefaultTrackerConfig =
     \<lparr>PollInterval = 50 * Millisecond,
      SpeakingLatchDur = 500 * Millisecond,
      EMAAlpha = 0.3,
      HistorySize = 100,
      Confidence_cfg = \<lparr>Base = 0.3, SpeakingBonus = 0.4, StabilityBonus = 0.2\<rparr>\<rparr>"

record Result = Reading +
  SmoothedAngle :: real
  Confidence :: real
  SpeakingLatched :: bool
  EstX :: real
  EstY :: real

definition zero_Result :: Result where
  "zero_Result =
     Reading.extend zero_Reading
       (Result.fields 0 0 False 0 0)"

text \<open>
  The tracker's state. A subscriber channel is its identity and the values buffered in it
  (capacity 10); the lifecycle fields (\<^verbatim>\<open>cancel\<close>, \<^verbatim>\<open>done\<close>), the logger and the
  locks are not state of the sequential model.
\<close>

record Tracker =
  cfg :: TrackerConfig
  latest :: Result
  history :: "Result list"
  speakingLatchedAt :: Time
  pollCount :: "64 word"
  pollErrorCount :: "64 word"
  totalLatencyMs :: "64 word"
  subs :: "(nat \<times> Result list) list"

text \<open>
  \<^verbatim>\<open>make([]Result, 0, cfg.HistorySize)\<close> panics on a negative capacity: \<open>None\<close>.
  So the history size of every tracker that exists is not negative.
\<close>

definition NewTracker :: "TrackerConfig \<Rightarrow> Tracker option" where
  "NewTracker c =
     (if HistorySize c < 0 then None
      else Some \<lparr>cfg = c, latest = zero_Result, history = [], speakingLatchedAt = 0,
                 pollCount = 0, pollErrorCount = 0, totalLatencyMs = 0, subs = []\<rparr>)"

text \<open>
  \<^verbatim>\<open>updateSpeakingLatch\<close> reads the clock twice: \<open>now\<close> is its \<^verbatim>\<open>time.Now()\<close>,
  \<open>since_now\<close> the instant that \<^verbatim>\<open>time.Since(t.speakingLatchedAt)\<close> reads.
\<close>

definition updateSpeakingLatch :: "Time \<Rightarrow> Time \<Rightarrow> bool \<Rightarrow> Tracker \<Rightarrow> bool \<times> Tracker" where
  "updateSpeakingLatch now since_now rawSpeaking t =
     (if rawSpeaking then (True, t\<lparr>speakingLatchedAt := now\<rparr>)
      else if time_Sub since_now (speakingLatchedAt t) <s SpeakingLatchDur (cfg t) then (True, t)
      else (False, t))"

definition calculateConfidence :: "bool \<Rightarrow> real \<Rightarrow> Tracker \<Rightarrow> real" where
  "calculateConfidence speaking angle t =
     (let conf = Base (Confidence_cfg (cfg t));
          conf = (if speaking then conf + SpeakingBonus (Confidence_cfg (cfg t)) else conf);
          conf =
            (if length (history t) \<ge> 5 then
               let variance =
                     foldl (\<lambda>variance r.
                              let diff = SmoothedAngle r - angle in variance + diff * diff)
                       0 (drop (length (history t) - 5) (history t));
                   variance = variance / 5
               in if variance < 0.01 then conf + StabilityBonus (Confidence_cfg (cfg t)) else conf
             else conf)
      in Clamp conf 0 1)"

text \<open>
  \<^verbatim>\<open>appendHistory\<close>: append, and when the slice is longer than \<^verbatim>\<open>HistorySize\<close> shift
  it one place to the left (\<^verbatim>\<open>copy(t.history, t.history[1:])\<close> leaves the last element
  in place) and cut it to \<^verbatim>\<open>t.history[:HistorySize]\<close>, which panics for a negative
  bound: \<open>None\<close>.
\<close>

definition appendHistory :: "Result \<Rightarrow> Tracker \<Rightarrow> Tracker option" where
  "appendHistory result t =
     (let h = history t @ [result]
      in if int (length h) > HistorySize (cfg t) then
           (if HistorySize (cfg t) < 0 then None
            else Some (t\<lparr>history := take (nat (HistorySize (cfg t))) (tl h @ [last h])\<rparr>))
         else Some (t\<lparr>history := h\<rparr>))"

text \<open>A send on a full channel (10 buffered values) is dropped.\<close>

definition notifySubscribers :: "Result \<Rightarrow> Tracker \<Rightarrow> Tracker" where
  "notifySubscribers result t =
     t\<lparr>subs := map (\<lambda>(ch, buf). (ch, if length buf < 10 then buf @ [result] else buf)) (subs t)\<rparr>"

text \<open>
  One poll. \<open>got\<close> is what \<^verbatim>\<open>t.source.GetDOA(ctx)\<close> returned, and the four clock
  readings are, in the order the code takes them: \<^verbatim>\<open>start\<close>, the instant read by
  \<^verbatim>\<open>time.Since(start)\<close>, and the two of \<^verbatim>\<open>updateSpeakingLatch\<close>. The result is
  \<open>None\<close> when the poll panics, otherwise the returned error and the new state.
\<close>

record poll_clock =
  clk_start :: Time
  clk_after :: Time
  clk_latch :: Time
  clk_since :: Time

definition poll :: "poll_clock \<Rightarrow> error + Reading \<Rightarrow> Tracker \<Rightarrow> (error option \<times> Tracker) option" where
  "poll clk got t =
     (case got of
        Inl err \<Rightarrow> Some (Some err, t\<lparr>pollErrorCount := pollErrorCount t + 1\<rparr>)
      | Inr reading0 \<Rightarrow>
          let latencyMs = Milliseconds (time_Sub (clk_after clk) (clk_start clk));
              reading = reading0\<lparr>LatencyMs := latencyMs\<rparr>;
              t = t\<lparr>pollCount := pollCount t + 1,
                     totalLatencyMs := totalLatencyMs t + latencyMs\<rparr>;
              (speakingLatched, t) =
                 updateSpeakingLatch (clk_latch clk) (clk_since clk) (Speaking reading) t;
              smoothedAngle =
                 (if length (history t) > 0 then
                    EMAAlpha (cfg t) * Angle reading
                      + (1 - EMAAlpha (cfg t)) * SmoothedAngle (latest t)
                  else Angle reading);
              confidence = calculateConfidence speakingLatched smoothedAngle t;
              estX = EstimatedX reading;
              estY = EstimatedY reading;
              result =
                 Reading.extend reading
                   (Result.fields smoothedAngle confidence speakingLatched estX estY);
              t = t\<lparr>latest := result\<rparr>
          in case appendHistory result t of
               None \<Rightarrow> None
             | Some t \<Rightarrow> Some (None, notifySubscribers result t))"

definition GetLatest :: "Tracker \<Rightarrow> Result" where
  "GetLatest t = latest t"

definition GetTarget :: "Tracker \<Rightarrow> real \<times> real \<times> bool" where
  "GetTarget t =
     (if Confidence (latest t) < Base (Confidence_cfg (cfg t)) then (0, 0, False)
      else (SmoothedAngle (latest t), Confidence (latest t), True))"

text \<open>
  The poll loop of \<^verbatim>\<open>Run\<close> over the ticks it sees before cancellation, each tick with
  its clock readings and the source's answer; a poll's error is logged and dropped.
\<close>

fun run_polls :: "(poll_clock \<times> (error + Reading)) list \<Rightarrow> Tracker \<Rightarrow> Tracker option" where
  "run_polls [] t = Some t"
| "run_polls ((clk, got) # ticks) t =
     (case poll clk got t of
        None \<Rightarrow> None
      | Some (err, t') \<Rightarrow> run_polls ticks t')"

section \<open>Mock source (package xvf3800: src/unnamed/part_002)\<close>

record MockSource =
  angle_mock :: real
  speaking_mock :: bool
  healthy_mock :: bool
  simulateWave_mock :: bool
  startTime_mock :: Time

definition NewMockSource :: "Time \<Rightarrow> MockSource" where
  "NewMockSource now =
     \<lparr>angle_mock = pi / 2, speaking_mock = False, healthy_mock = True,
      simulateWave_mock = False, startTime_mock = now\<rparr>"

definition NewMockSourceWithWave :: "Time \<Rightarrow> MockSource" where
  "NewMockSourceWithWave now =
     \<lparr>angle_mock = 0, speaking_mock = False, healthy_mock = True,
      simulateWave_mock = True, startTime_mock = now\<rparr>"

text \<open>\<^verbatim>\<open>Duration.Seconds\<close>: the duration as a floating-point number of seconds.\<close>

definition Seconds :: "Duration \<Rightarrow> real" where
  "Seconds d = real_of_int (sint d) / 1000000000"

text \<open>
  \<open>since_now\<close> is the instant read by \<^verbatim>\<open>time.Since(m.startTime)\<close> (read only when
  the wave is simulated), \<open>now\<close> the \<^verbatim>\<open>time.Now()\<close> of the timestamp.
\<close>

definition MockSource_GetDOA :: "Time \<Rightarrow> Time \<Rightarrow> MockSource \<Rightarrow> error + Reading" where
  "MockSource_GetDOA since_now now m =
     (let rawAngle =
            (if simulateWave_mock m then
               let elapsed = Seconds (time_Sub since_now (startTime_mock m))
               in pi / 2 + sin elapsed * pi / 4
             else angle_mock m)
      in Inr (zero_Reading\<lparr>Angle := ToEvaAngle rawAngle, RawAngle := rawAngle,
                Speaking := speaking_mock m, Timestamp := now, LatencyMs := 1\<rparr>))"

definition MockSource_Close :: "MockSource \<Rightarrow> error option \<times> MockSource" where
  "MockSource_Close m = (None, m)"

definition MockSource_Healthy :: "MockSource \<Rightarrow> bool" where
  "MockSource_Healthy m = healthy_mock m"

definition SetAngle :: "real \<Rightarrow> MockSource \<Rightarrow> MockSource" where
  "SetAngle a m = m\<lparr>angle_mock := a\<rparr>"

definition SetSpeaking :: "bool \<Rightarrow> MockSource \<Rightarrow> MockSource" where
  "SetSpeaking b m = m\<lparr>speaking_mock := b\<rparr>"

definition SetHealthy :: "bool \<Rightarrow> MockSource \<Rightarrow> MockSource" where
  "SetHealthy b m = m\<lparr>healthy_mock := b\<rparr>"

section \<open>USB source (package xvf3800: src/unnamed/part_003)\<close>

text \<open>
  The source modelled is the one with the enhanced reads (src/unnamed/part_003);
  src/internal/xvf3800/usb.go is the same code without \<^verbatim>\<open>readEnhancedData\<close>, with
  \<^verbatim>\<open>gpoResID\<close> called \<^verbatim>\<open>doaResID\<close>. The USB library is outside the repository. An open \<^verbatim>\<open>*gousb.Device\<close> is a handle;
  every call the source makes to the library or to the clock's \<^verbatim>\<open>Sleep\<close> is recorded
  as a \<open>usb_op\<close>, in order, and what the library answers is an argument (\<open>usb_env\<close>).
\<close>

type_synonym device = nat

datatype usb_op =
    NewContext
  | OpenDeviceWithVIDPID "16 word" "16 word"
  | SetAutoDetach device
  | Control device "8 word" "8 word" "16 word" "16 word" nat
  | DeviceClose device
  | ContextClose
  | Sleep Duration

definition VendorID :: "16 word" where
  "VendorID = 0x38FB"

definition ProductID :: "16 word" where
  "ProductID = 0x1001"

definition gpoResID :: "16 word" where
  "gpoResID = 20"

definition doaCmdID :: "16 word" where
  "doaCmdID = 19"

definition aecResID :: "16 word" where
  "aecResID = 33"

definition aecAzimuthCmdID :: "16 word" where
  "aecAzimuthCmdID = 75"

definition aecSpEnergyCmdID :: "16 word" where
  "aecSpEnergyCmdID = 80"

record USBSourceConfig =
  MaxConsecutiveErrors :: "64 word"
  InitialBackoff :: Duration
  MaxBackoff_usb :: Duration

definition DefaultUSBSourceConfig :: USBSourceConfig where
  "DefaultUSBSourceConfig =
     \<lparr>MaxConsecutiveErrors = 5,
      InitialBackoff = 100 * Millisecond,
      MaxBackoff_usb = 5 * Second\<rparr>"

text \<open>
  \<open>ctx\<close> says whether \<^verbatim>\<open>u.ctx\<close> is set, \<open>dev\<close> is \<open>None\<close> for a nil \<^verbatim>\<open>u.dev\<close>.
  The counters are Go \<^verbatim>\<open>int\<close>s (64 bits, signed).
\<close>

record USBSource =
  ctx :: bool
  dev :: "device option"
  closed_usb :: bool
  healthy :: bool
  consecutiveErrors :: "64 word"
  maxErrors :: "64 word"
  lastError :: "error option"
  lastErrorTime :: Time
  reconnectBackoff :: Duration
  maxBackoff :: Duration

text \<open>
  What the outside answers during one call of \<^verbatim>\<open>GetDOA\<close>: the result of
  \<^verbatim>\<open>OpenDeviceWithVIDPID\<close> (an error, no device, or a device), the result of the control
  transfer (an error, or the count \<open>n\<close> with the contents of the 9-byte buffer), the
  results of the two enhanced transfers (17-byte buffers), and the clock readings (\<^verbatim>\<open>start\<close>, the instant read by \<^verbatim>\<open>time.Since(start)\<close>, the
  timestamp, and the \<^verbatim>\<open>time.Now()\<close> of \<^verbatim>\<open>recordError\<close>).
\<close>

record usb_env =
  env_open :: "error + device option"
  env_control :: "error + int \<times> 8 word list"
  env_energy :: "error + int \<times> 8 word list"
  env_azimuth :: "error + int \<times> 8 word list"
  env_start :: Time
  env_since :: Time
  env_timestamp :: Time
  env_error_time :: Time

definition openDevice ::
  "error + device option \<Rightarrow> USBSource \<Rightarrow> error option \<times> USBSource \<times> usb_op list" where
  "openDevice opened u =
     (case opened of
        Inl err \<Rightarrow> (Some (OpenFailed err), u, [OpenDeviceWithVIDPID VendorID ProductID])
      | Inr None \<Rightarrow> (Some DeviceNotFound, u, [OpenDeviceWithVIDPID VendorID ProductID])
      | Inr (Some d) \<Rightarrow>
          (None, u\<lparr>dev := Some d, healthy := True, consecutiveErrors := 0\<rparr>,
           [OpenDeviceWithVIDPID VendorID ProductID, SetAutoDetach d]))"

definition NewUSBSourceWithConfig ::
  "USBSourceConfig \<Rightarrow> error + device option \<Rightarrow> (error + USBSource) \<times> usb_op list" where
  "NewUSBSourceWithConfig c opened =
     (let source =
            \<lparr>ctx = True, dev = None, closed_usb = False, healthy = True,
             consecutiveErrors = 0, maxErrors = MaxConsecutiveErrors c,
             lastError = None, lastErrorTime = 0,
             reconnectBackoff = InitialBackoff c, maxBackoff = MaxBackoff_usb c\<rparr>
      in case openDevice opened source of
           (Some err, source', ops) \<Rightarrow> (Inl err, NewContext # ops @ [ContextClose])
         | (None, source', ops) \<Rightarrow> (Inr source', NewContext # ops))"

definition NewUSBSource :: "error + device option \<Rightarrow> (error + USBSource) \<times> usb_op list" where
  "NewUSBSource opened = NewUSBSourceWithConfig DefaultUSBSourceConfig opened"

definition recordError :: "error \<Rightarrow> Time \<Rightarrow> USBSource \<Rightarrow> USBSource \<times> usb_op list" where
  "recordError err now u =
     (let u = u\<lparr>consecutiveErrors := consecutiveErrors u + 1,
                 lastError := Some err, lastErrorTime := now\<rparr>
      in if maxErrors u \<le>s consecutiveErrors u then
           (let u = u\<lparr>healthy := False\<rparr>
            in case dev u of
                 Some d \<Rightarrow> (u\<lparr>dev := None\<rparr>, [DeviceClose d])
               | None \<Rightarrow> (u, []))
         else (u, []))"

definition recordSuccess :: "USBSource \<Rightarrow> USBSource" where
  "recordSuccess u =
     u\<lparr>consecutiveErrors := 0, healthy := True,
       reconnectBackoff := InitialBackoff DefaultUSBSourceConfig\<rparr>"

definition reconnect ::
  "error + device option \<Rightarrow> USBSource \<Rightarrow> error option \<times> USBSource \<times> usb_op list" where
  "reconnect opened u =
     (let slept = Sleep (reconnectBackoff u);
          u = u\<lparr>reconnectBackoff := reconnectBackoff u * 2\<rparr>;
          u = (if maxBackoff u <s reconnectBackoff u
               then u\<lparr>reconnectBackoff := maxBackoff u\<rparr> else u)
      in case openDevice opened u of (err, u, ops) \<Rightarrow> (err, u, slept # ops))"

text \<open>\<^verbatim>\<open>binary.LittleEndian.Uint32\<close> on the four bytes from position \<open>i\<close>.\<close>

definition LittleEndian_Uint32 :: "8 word list \<Rightarrow> nat \<Rightarrow> 32 word" where
  "LittleEndian_Uint32 b i =
     ucast (b ! i) OR push_bit 8 (ucast (b ! (i + 1)))
       OR push_bit 16 (ucast (b ! (i + 2))) OR push_bit 24 (ucast (b ! (i + 3)))"

text \<open>
  \<^verbatim>\<open>math.Float32frombits\<close>, widened to \<^verbatim>\<open>float64\<close>, is the argument
  \<open>Float32frombits\<close> of the functions that decode. \<^verbatim>\<open>readEnhancedData\<close> makes two
  transfers on the open device, each into a buffer of 17 bytes; a transfer that fails, is
  short or has a status other than 0 leaves its four values zero.
\<close>

definition four_floats :: "(32 word \<Rightarrow> real) \<Rightarrow> 8 word list \<Rightarrow> real \<times> real \<times> real \<times> real" where
  "four_floats Float32frombits data =
     (Float32frombits (LittleEndian_Uint32 data 1), Float32frombits (LittleEndian_Uint32 data 5),
      Float32frombits (LittleEndian_Uint32 data 9), Float32frombits (LittleEndian_Uint32 data 13))"

definition enhanced_values ::
  "(32 word \<Rightarrow> real) \<Rightarrow> error + int \<times> 8 word list \<Rightarrow> real \<times> real \<times> real \<times> real" where
  "enhanced_values Float32frombits transferred =
     (case transferred of
        Inl err \<Rightarrow> (0, 0, 0, 0)
      | Inr (n, buffer) \<Rightarrow>
          let data = take 17 (buffer @ replicate 17 0)
          in if n \<ge> 17 \<and> data ! 0 = 0 then four_floats Float32frombits data else (0, 0, 0, 0))"

definition readEnhancedData ::
  "(32 word \<Rightarrow> real) \<Rightarrow> usb_env \<Rightarrow> device \<Rightarrow>
     ((real \<times> real \<times> real \<times> real) \<times> (real \<times> real \<times> real \<times> real)) \<times> usb_op list" where
  "readEnhancedData Float32frombits env d =
     ((enhanced_values Float32frombits (env_energy env),
       enhanced_values Float32frombits (env_azimuth env)),
      [Control d 0xC0 0 (0x80 OR aecSpEnergyCmdID) aecResID 17,
       Control d 0xC0 0 (0x80 OR aecAzimuthCmdID) aecResID 17])"

definition sumEnergy :: "real \<times> real \<times> real \<times> real \<Rightarrow> real" where
  "sumEnergy energy = (case energy of (e0, e1, e2, e3) \<Rightarrow> 0 + e0 + e1 + e2 + e3)"

text \<open>
  \<^verbatim>\<open>GetDOA\<close>. The buffer is \<^verbatim>\<open>make([]byte, 9)\<close>: nine bytes whatever the device
  wrote. A nil \<^verbatim>\<open>u.dev\<close> at the transfer would be a nil dereference (\<open>NilDevice\<close>); it
  cannot occur, since a reconnect that returns no error has set the device.
\<close>

definition USBSource_GetDOA ::
  "(32 word \<Rightarrow> real) \<Rightarrow> usb_env \<Rightarrow> USBSource \<Rightarrow> (error + Reading) \<times> USBSource \<times> usb_op list" where
  "USBSource_GetDOA Float32frombits env u =
     (if closed_usb u then (Inl DeviceClosed, u, [])
      else
        case (if dev u = None then reconnect (env_open env) u else (None, u, [])) of
          (Some err, u, ops) \<Rightarrow> (Inl err, u, ops)
        | (None, u, ops) \<Rightarrow>
            (case dev u of
               None \<Rightarrow> (Inl NilDevice, u, ops)
             | Some d \<Rightarrow>
                 let ops = ops @ [Control d 0xC0 0 (0x80 OR doaCmdID) gpoResID 9]
                 in case env_control env of
                      Inl err \<Rightarrow>
                        (case recordError err (env_error_time env) u of
                           (u, closes) \<Rightarrow> (Inl (ControlTransferFailed err), u, ops @ closes))
                    | Inr (n, buffer) \<Rightarrow>
                        let data = take 9 (buffer @ replicate 9 0)
                        in if n < 9 then
                             (case recordError (ShortRead n) (env_error_time env) u of
                                (u, closes) \<Rightarrow> (Inl (ShortRead n), u, ops @ closes))
                           else if data ! 0 \<noteq> 0 then
                             (case recordError (ErrorStatus (data ! 0)) (env_error_time env) u of
                                (u, closes) \<Rightarrow> (Inl (ErrorStatus (data ! 0)), u, ops @ closes))
                           else
                             let u = recordSuccess u;
                                 angleBits = LittleEndian_Uint32 data 1;
                                 speakingBits = LittleEndian_Uint32 data 5;
                                 rawAngle = Float32frombits angleBits;
                                 speaking = (Float32frombits speakingBits \<noteq> 0);
                                 latency = time_Sub (env_since env) (env_start env)
                             in (case readEnhancedData Float32frombits env d of
                                   ((energyValues, azimuthValues), reads) \<Rightarrow>
                                     (Inr \<lparr>Angle = ToEvaAngle rawAngle, RawAngle = rawAngle,
                                            Speaking = speaking, Timestamp = env_timestamp env,
                                            LatencyMs = Milliseconds latency,
                                            SpeechEnergy = energyValues,
                                            MicAzimuths = azimuthValues,
                                            TotalEnergy = sumEnergy energyValues\<rparr>,
                                      u, ops @ reads))))"

definition USBSource_Close :: "USBSource \<Rightarrow> error option \<times> USBSource \<times> usb_op list" where
  "USBSource_Close u =
     (if closed_usb u then (None, u, [])
      else
        let u = u\<lparr>closed_usb := True\<rparr>;
            (u, ops) = (case dev u of
                          Some d \<Rightarrow> (u\<lparr>dev := None\<rparr>, [DeviceClose d])
                        | None \<Rightarrow> (u, []));
            (u, ops) = (if ctx u then (u\<lparr>ctx := False\<rparr>, ops @ [ContextClose]) else (u, ops))
        in (None, u, ops))"

definition USBSource_Healthy :: "USBSource \<Rightarrow> bool" where
  "USBSource_Healthy u = healthy u"

text \<open>
  A caller's sequence of \<^verbatim>\<open>GetDOA\<close> and \<^verbatim>\<open>Close\<close> calls on one source (the mutex
  makes them sequential): what each call returns, the final state, and all device
  operations in order.
\<close>

datatype usb_call = CallGetDOA usb_env | CallClose

datatype usb_return = ReturnGetDOA "error + Reading" | ReturnClose "error option"

fun USBSource_calls ::
  "(32 word \<Rightarrow> real) \<Rightarrow> usb_call list \<Rightarrow> USBSource \<Rightarrow> usb_return list \<times> USBSource \<times> usb_op list" where
  "USBSource_calls Float32frombits [] u = ([], u, [])"
| "USBSource_calls Float32frombits (CallGetDOA env # calls) u =
     (case USBSource_GetDOA Float32frombits env u of
        (r, u, ops) \<Rightarrow>
          (case USBSource_calls Float32frombits calls u of
             (rs, u, ops') \<Rightarrow> (ReturnGetDOA r # rs, u, ops @ ops')))"
| "USBSource_calls Float32frombits (CallClose # calls) u =
     (case USBSource_Close u of
        (r, u, ops) \<Rightarrow>
          (case USBSource_calls Float32frombits calls u of
             (rs, u, ops') \<Rightarrow> (ReturnClose r # rs, u, ops @ ops')))"

section \<open>Message envelope (internal/protocol/message.go)\<close>

text \<open>
  \<^verbatim>\<open>encoding/json\<close> and \<^verbatim>\<open>encoding/base64\<close> are libraries outside the repository:
  \<^verbatim>\<open>json.Marshal\<close>, \<^verbatim>\<open>json.Unmarshal\<close> and \<^verbatim>\<open>EncodeToString\<close> are arguments of
  the functions that call them. Byte slices that hold text are strings; a nil
  \<^verbatim>\<open>json.RawMessage\<close> is \<open>None\<close>.
\<close>

type_synonym MessageType = string

definition TypeFrame :: MessageType where "TypeFrame = ''frame''"
definition TypeDOA :: MessageType where "TypeDOA = ''doa''"
definition TypeMic :: MessageType where "TypeMic = ''mic''"
definition TypeState :: MessageType where "TypeState = ''state''"
definition TypePong :: MessageType where "TypePong = ''pong''"

record Message =
  Type :: MessageType
  Timestamp_msg :: "64 word"
  Data :: "string option"

text \<open>
  \<^verbatim>\<open>Time.UnixMilli\<close>: milliseconds since 1970, the zero \<^verbatim>\<open>time.Time\<close> being
  62135596800 seconds earlier.
\<close>

definition UnixMilli :: "Time \<Rightarrow> 64 word" where
  "UnixMilli t = word_of_int ((t - 62135596800 * 1000000000) div 1000000)"

definition NewMessage ::
  "('p \<Rightarrow> error + string) \<Rightarrow> Time \<Rightarrow> MessageType \<Rightarrow> 'p option \<Rightarrow> error + Message" where
  "NewMessage json_Marshal now msgType data =
     (case (case data of
              None \<Rightarrow> Inr None
            | Some d \<Rightarrow>
                (case json_Marshal d of
                   Inl err \<Rightarrow> Inl (MarshalDataFailed err)
                 | Inr raw \<Rightarrow> Inr (Some raw))) of
        Inl err \<Rightarrow> Inl err
      | Inr rawData \<Rightarrow>
          Inr \<lparr>Type = msgType, Timestamp_msg = UnixMilli now, Data = rawData\<rparr>)"

definition Bytes :: "(Message \<Rightarrow> error + string) \<Rightarrow> Message \<Rightarrow> error + string" where
  "Bytes json_Marshal m = json_Marshal m"


record FrameData =
  Width :: "64 word"
  Height :: "64 word"
  Format :: string
  Data_frame :: string
  FrameID :: "64 word"

definition NewFrameMessage ::
  "(FrameData \<Rightarrow> error + string) \<Rightarrow> (8 word list \<Rightarrow> string) \<Rightarrow> Time \<Rightarrow>
     64 word \<Rightarrow> 64 word \<Rightarrow> 8 word list \<Rightarrow> 64 word \<Rightarrow> error + Message" where
  "NewFrameMessage json_Marshal EncodeToString now width height jpegData frameID =
     NewMessage json_Marshal now TypeFrame
       (Some \<lparr>Width = width, Height = height, Format = ''jpeg'',
               Data_frame = EncodeToString jpegData, FrameID = frameID\<rparr>)"

record DOAData =
  Angle_doa :: real
  SmoothedAngle_doa :: real
  Speaking_doa :: bool
  SpeakingLatched_doa :: bool
  Confidence_doa :: real

definition NewDOAMessage ::
  "(DOAData \<Rightarrow> error + string) \<Rightarrow> Time \<Rightarrow> real \<Rightarrow> real \<Rightarrow> bool \<Rightarrow> bool \<Rightarrow> real \<Rightarrow>
     error + Message" where
  "NewDOAMessage json_Marshal now a smoothedAngle speaking speakingLatched confidence =
     NewMessage json_Marshal now TypeDOA
       (Some \<lparr>Angle_doa = a, SmoothedAngle_doa = smoothedAngle, Speaking_doa = speaking,
               SpeakingLatched_doa = speakingLatched, Confidence_doa = confidence\<rparr>)"

section \<open>Cloud client (package cloud: src/unnamed/part_000, from line 312)\<close>

record Config =
  URL :: string
  ReconnectBackoff :: Duration
  MaxBackoff :: Duration
  PingInterval :: Duration
  WriteTimeout :: Duration

definition DefaultConfig :: Config where
  "DefaultConfig =
     \<lparr>URL = ''ws://localhost:8080/ws/robot'',
      ReconnectBackoff = 1 * Second,
      MaxBackoff = 30 * Second,
      PingInterval = 10 * Second,
      WriteTimeout = 5 * Second\<rparr>"

text \<open>
  A \<^verbatim>\<open>*websocket.Conn\<close> is a handle, \<open>None\<close> for nil. A callback is a function of the
  caller's: the state says whether it is set, and a call of it is recorded. Everything
  the client does to the network, the timer or a callback is a \<open>net_op\<close>, in order.
\<close>

type_synonym connection = nat

datatype net_op =
    Dial string
  | StartPingLoop
  | ReadMessage connection
  | SetWriteDeadline connection Time
  | WriteMessage connection string
  | ConnClose connection
  | After Duration
  | CallMotorCommand Message
  | CallEmotionCommand Message
  | CallSpeakData Message
  | CallConfigUpdate Message

record Client =
  cfg_client :: Config
  conn :: "connection option"
  connected_client :: bool
  cancel :: bool
  onMotorCommand :: bool
  onEmotionCommand :: bool
  onSpeakData :: bool
  onConfigUpdate :: bool
  messagesSent :: "64 word"
  messagesReceived :: "64 word"
  reconnects :: "64 word"

definition NewClient :: "Config \<Rightarrow> Client" where
  "NewClient c =
     \<lparr>cfg_client = c, conn = None, connected_client = False, cancel = False,
      onMotorCommand = False, onEmotionCommand = False, onSpeakData = False,
      onConfigUpdate = False, messagesSent = 0, messagesReceived = 0, reconnects = 0\<rparr>"

definition closeConnection :: "Client \<Rightarrow> Client \<times> net_op list" where
  "closeConnection c =
     (let c = c\<lparr>connected_client := False\<rparr>
      in case conn c of
           Some h \<Rightarrow> (c\<lparr>conn := None\<rparr>, [ConnClose h])
         | None \<Rightarrow> (c, []))"

text \<open>
  What the outside answers to one \<^verbatim>\<open>SendMessage\<close>: \<^verbatim>\<open>json.Marshal\<close> on the message,
  the \<^verbatim>\<open>time.Now()\<close> of the write deadline, and the error of \<^verbatim>\<open>WriteMessage\<close>
  (\<open>None\<close> for nil).
\<close>

record send_env =
  json_Marshal_msg :: "Message \<Rightarrow> error + string"
  deadline_now :: Time
  written :: "error option"

definition SendMessage :: "send_env \<Rightarrow> Message \<Rightarrow> Client \<Rightarrow> error option \<times> Client \<times> net_op list" where
  "SendMessage env msg c =
     (case (connected_client c, conn c) of
        (True, Some h) \<Rightarrow>
          (case json_Marshal_msg env msg of
             Inl err \<Rightarrow> (Some (MarshalFailed err), c, [])
           | Inr data \<Rightarrow>
               let ops = [SetWriteDeadline h (deadline_now env + sint (WriteTimeout (cfg_client c))),
                          WriteMessage h data]
               in case written env of
                    Some err \<Rightarrow>
                      (case closeConnection c of
                         (c, closes) \<Rightarrow> (Some (WriteFailed err), c, ops @ closes))
                  | None \<Rightarrow> (None, c\<lparr>messagesSent := messagesSent c + 1\<rparr>, ops))
      | _ \<Rightarrow> (Some NotConnected, c, []))"

definition SendFrame ::
  "(FrameData \<Rightarrow> error + string) \<Rightarrow> (8 word list \<Rightarrow> string) \<Rightarrow> Time \<Rightarrow> send_env \<Rightarrow>
     64 word \<Rightarrow> 64 word \<Rightarrow> 8 word list \<Rightarrow> 64 word \<Rightarrow> Client \<Rightarrow> error option \<times> Client \<times> net_op list" where
  "SendFrame json_Marshal EncodeToString now env width height jpegData frameID c =
     (case NewFrameMessage json_Marshal EncodeToString now width height jpegData frameID of
        Inl err \<Rightarrow> (Some err, c, [])
      | Inr msg \<Rightarrow> SendMessage env msg c)"

definition SendDOA ::
  "(DOAData \<Rightarrow> error + string) \<Rightarrow> Time \<Rightarrow> send_env \<Rightarrow>
     real \<Rightarrow> real \<Rightarrow> bool \<Rightarrow> bool \<Rightarrow> real \<Rightarrow> Client \<Rightarrow> error option \<times> Client \<times> net_op list" where
  "SendDOA json_Marshal now env a smoothedAngle speaking speakingLatched confidence c =
     (case NewDOAMessage json_Marshal now a smoothedAngle speaking speakingLatched confidence of
        Inl err \<Rightarrow> (Some err, c, [])
      | Inr msg \<Rightarrow> SendMessage env msg c)"











definition IsConnected :: "Client \<Rightarrow> bool" where
  "IsConnected c = connected_client c"

section \<open>Binary64 arithmetic\<close>

text \<open>
  Go's \<^verbatim>\<open>float64\<close> is IEEE 754 binary64. A value is finite, an infinity or NaN. The
  finite values are the integers below \<open>2\<^sup>5\<^sup>3\<close> in magnitude times a power of two from
  \<open>2\<^sup>-\<^sup>1\<^sup>0\<^sup>7\<^sup>4\<close> to \<open>2\<^sup>9\<^sup>7\<^sup>1\<close>; the two zeros are one value here (the modelled code
  never divides by zero, and nothing else tells them apart).

  An operation computes the exact result and rounds it: to the nearest multiple of the
  unit in the last place of the result's binade (exponents below \<open>-1022\<close> share the
  subnormal unit \<open>2\<^sup>-\<^sup>1\<^sup>0\<^sup>7\<^sup>4\<close>), ties to the even multiple, and to an infinity from
  \<open>2\<^sup>1\<^sup>0\<^sup>2\<^sup>4\<close> on. The conversion of a constant to \<^verbatim>\<open>float64\<close> rounds in the same way.
  Every operation is rounded on its own, as in the code compiled without fused
  multiply-add.
\<close>

datatype float64 = Finite real | PosInf | NegInf | NaN

definition binade :: "real \<Rightarrow> int" where
  "binade x = (if x = 0 then - 1022 else max (- 1022) \<lfloor>log 2 \<bar>x\<bar>\<rfloor>)"

definition ulp64 :: "real \<Rightarrow> real" where
  "ulp64 x = 2 powi (binade x - 52)"

definition roundToEven :: "real \<Rightarrow> int" where
  "roundToEven t =
     (let n = \<lfloor>t\<rfloor>; f = t - of_int n
      in if f < 1 / 2 then n else if 1 / 2 < f then n + 1 else if even n then n else n + 1)"

definition nearest64 :: "real \<Rightarrow> real" where
  "nearest64 x = of_int (roundToEven (x / ulp64 x)) * ulp64 x"

definition round64 :: "real \<Rightarrow> float64" where
  "round64 x =
     (let r = nearest64 x
      in if 2 ^ 1024 \<le> r then PosInf else if r \<le> - (2 ^ 1024) then NegInf else Finite r)"

text \<open>
  Negation, addition, subtraction (the addition of the negation), multiplication and
  division, with the infinities and NaN as IEEE 754 has them. A division by zero takes
  the zero as \<open>+0\<close>.
\<close>

fun fneg :: "float64 \<Rightarrow> float64" where
  "fneg (Finite x) = Finite (- x)"
| "fneg PosInf = NegInf"
| "fneg NegInf = PosInf"
| "fneg NaN = NaN"

fun fadd :: "float64 \<Rightarrow> float64 \<Rightarrow> float64" where
  "fadd (Finite x) (Finite y) = round64 (x + y)"
| "fadd NaN y = NaN"
| "fadd x NaN = NaN"
| "fadd PosInf NegInf = NaN"
| "fadd NegInf PosInf = NaN"
| "fadd PosInf y = PosInf"
| "fadd x PosInf = PosInf"
| "fadd NegInf y = NegInf"
| "fadd x NegInf = NegInf"

definition fsub :: "float64 \<Rightarrow> float64 \<Rightarrow> float64" where
  "fsub x y = fadd x (fneg y)"

fun fmul :: "float64 \<Rightarrow> float64 \<Rightarrow> float64" where
  "fmul (Finite x) (Finite y) = round64 (x * y)"
| "fmul NaN y = NaN"
| "fmul x NaN = NaN"
| "fmul (Finite x) y = (if x = 0 then NaN else if (0 < x) = (y = PosInf) then PosInf else NegInf)"
| "fmul x (Finite y) = (if y = 0 then NaN else if (0 < y) = (x = PosInf) then PosInf else NegInf)"
| "fmul x y = (if x = y then PosInf else NegInf)"

fun fdiv :: "float64 \<Rightarrow> float64 \<Rightarrow> float64" where
  "fdiv (Finite x) (Finite y) =
     (if y \<noteq> 0 then round64 (x / y)
      else if x = 0 then NaN else if 0 < x then PosInf else NegInf)"
| "fdiv NaN y = NaN"
| "fdiv x NaN = NaN"
| "fdiv (Finite x) y = Finite 0"
| "fdiv x (Finite y) = (if (0 \<le> y) = (x = PosInf) then PosInf else NegInf)"
| "fdiv x y = NaN"

text \<open>The comparisons \<^verbatim>\<open><\<close>, \<^verbatim>\<open>>\<close> and \<^verbatim>\<open><=\<close>: false whenever an operand is NaN.\<close>

fun flt :: "float64 \<Rightarrow> float64 \<Rightarrow> bool" where
  "flt (Finite x) (Finite y) = (x < y)"
| "flt NaN y = False"
| "flt x NaN = False"
| "flt PosInf y = False"
| "flt x NegInf = False"
| "flt x y = True"

definition fgt :: "float64 \<Rightarrow> float64 \<Rightarrow> bool" where
  "fgt x y = flt y x"

fun fle :: "float64 \<Rightarrow> float64 \<Rightarrow> bool" where
  "fle (Finite x) (Finite y) = (x \<le> y)"
| "fle NaN y = False"
| "fle x NaN = False"
| "fle NegInf y = True"
| "fle x PosInf = True"
| "fle x y = False"

text \<open>The finite values of binary64, for the lemmas on rounding.\<close>

definition is_float64 :: "real \<Rightarrow> bool" where
  "is_float64 c = (\<exists>m e. c = of_int m * 2 powi e \<and> \<bar>m\<bar> < 2 ^ 53 \<and> - 1074 \<le> e \<and> e \<le> 971)"

section \<open>Angle normalization in binary64 (internal/doa/source.go)\<close>

text \<open>
  \<^verbatim>\<open>math.Pi\<close> is an untyped constant, given in the \<^verbatim>\<open>math\<close> package by the decimal
  digits below; \<^verbatim>\<open>math.Pi\<close>, \<^verbatim>\<open>-math.Pi\<close> and \<^verbatim>\<open>2 * math.Pi\<close> are computed exactly
  and rounded where they meet a \<^verbatim>\<open>float64\<close>. \<open>Pi64\<close> is the value \<^verbatim>\<open>math.Pi\<close> rounds
  to (\<^verbatim>\<open>0x400921FB54442D18\<close>).

  \<^verbatim>\<open>NormalizeAngle\<close> is two loops in sequence:
  \<^verbatim>\<open>for angle > math.Pi { angle -= 2 * math.Pi }\<close> and then
  \<^verbatim>\<open>for angle < -math.Pi { angle += 2 * math.Pi }\<close>. A loop that does not end returns
  nothing: \<open>None\<close>.
\<close>

definition math_Pi :: real where
  "math_Pi = 3.14159265358979323846264338327950288419716939937510582097494459"

definition Pi64 :: real where
  "Pi64 = 884279719003555 / 2 ^ 48"

partial_function (option) NormalizeAngle_down :: "float64 \<Rightarrow> float64 option" where
  "NormalizeAngle_down angle =
     (if fgt angle (round64 math_Pi) then NormalizeAngle_down (fsub angle (round64 (2 * math_Pi)))
      else Some angle)"

partial_function (option) NormalizeAngle_up :: "float64 \<Rightarrow> float64 option" where
  "NormalizeAngle_up angle =
     (if flt angle (round64 (- math_Pi)) then NormalizeAngle_up (fadd angle (round64 (2 * math_Pi)))
      else Some angle)"

definition NormalizeAngle :: "float64 \<Rightarrow> float64 option" where
  "NormalizeAngle angle =
     (case NormalizeAngle_down angle of None \<Rightarrow> None | Some angle \<Rightarrow> NormalizeAngle_up angle)"

section \<open>The tracker's poll in binary64 (package doa: src/internal/pollen/client.go)\<close>

text \<open>
  The confidence score depends on how sums and the variance round, so the poll is modelled
  here once more with \<^verbatim>\<open>float64\<close> as binary64: the same structs and the same functions
  as in the section on the tracker, field for field and line for line, with the
  arithmetic of the section above. \<^verbatim>\<open>math.Sqrt\<close>, \<^verbatim>\<open>math.Sin\<close> and \<^verbatim>\<open>math.Cos\<close> are
  arguments. The untyped constants \<^verbatim>\<open>0\<close>, \<^verbatim>\<open>1\<close> and \<^verbatim>\<open>5\<close> are themselves in
  binary64; the others are rounded.
\<close>

record libm =
  math_Sqrt :: "float64 \<Rightarrow> float64"
  math_Sin :: "float64 \<Rightarrow> float64"
  math_Cos :: "float64 \<Rightarrow> float64"

definition Clamp_f64 :: "float64 \<Rightarrow> float64 \<Rightarrow> float64 \<Rightarrow> float64" where
  "Clamp_f64 v lo hi = (if flt v lo then lo else if fgt v hi then hi else v)"

record Reading_f64 =
  Angle_f64 :: float64
  RawAngle_f64 :: float64
  Speaking_f64 :: bool
  Timestamp_f64 :: Time
  LatencyMs_f64 :: "64 word"
  SpeechEnergy_f64 :: "float64 \<times> float64 \<times> float64 \<times> float64"
  MicAzimuths_f64 :: "float64 \<times> float64 \<times> float64 \<times> float64"
  TotalEnergy_f64 :: float64

definition zero_Reading_f64 :: Reading_f64 where
  "zero_Reading_f64 =
     \<lparr>Angle_f64 = Finite 0, RawAngle_f64 = Finite 0, Speaking_f64 = False, Timestamp_f64 = 0,
      LatencyMs_f64 = 0, SpeechEnergy_f64 = (Finite 0, Finite 0, Finite 0, Finite 0),
      MicAzimuths_f64 = (Finite 0, Finite 0, Finite 0, Finite 0), TotalEnergy_f64 = Finite 0\<rparr>"

definition EstimatedDistance_f64 :: "libm \<Rightarrow> Reading_f64 \<Rightarrow> float64" where
  "EstimatedDistance_f64 m r =
     (if fle (TotalEnergy_f64 r) (Finite 0) \<or> \<not> Speaking_f64 r then Finite 0
      else
        let distance = math_Sqrt m (fdiv (round64 6267144.0) (TotalEnergy_f64 r));
            distance = (if flt distance (round64 0.3) then round64 0.3 else distance);
            distance = (if fgt distance (round64 5.0) then round64 5.0 else distance)
        in distance)"

definition EstimatedY_f64 :: "libm \<Rightarrow> Reading_f64 \<Rightarrow> float64" where
  "EstimatedY_f64 m r =
     (let dist = EstimatedDistance_f64 m r
      in if fle dist (Finite 0) then Finite 0 else fmul dist (math_Sin m (Angle_f64 r)))"

definition EstimatedX_f64 :: "libm \<Rightarrow> Reading_f64 \<Rightarrow> float64" where
  "EstimatedX_f64 m r =
     (let dist = EstimatedDistance_f64 m r
      in if fle dist (Finite 0) then Finite 0 else fmul dist (math_Cos m (Angle_f64 r)))"

record ConfidenceConfig_f64 =
  Base_f64 :: float64
  SpeakingBonus_f64 :: float64
  StabilityBonus_f64 :: float64

record TrackerConfig_f64 =
  PollInterval_f64 :: Duration
  SpeakingLatchDur_f64 :: Duration
  EMAAlpha_f64 :: float64
  HistorySize_f64 :: int
  Confidence_cfg_f64 :: ConfidenceConfig_f64

record Result_f64 = Reading_f64 +
  SmoothedAngle_f64 :: float64
  Confidence_f64 :: float64
  SpeakingLatched_f64 :: bool
  EstX_f64 :: float64
  EstY_f64 :: float64

definition zero_Result_f64 :: Result_f64 where
  "zero_Result_f64 =
     Reading_f64.extend zero_Reading_f64
       (Result_f64.fields (Finite 0) (Finite 0) False (Finite 0) (Finite 0))"

record Tracker_f64 =
  cfg_f64 :: TrackerConfig_f64
  latest_f64 :: Result_f64
  history_f64 :: "Result_f64 list"
  speakingLatchedAt_f64 :: Time
  pollCount_f64 :: "64 word"
  pollErrorCount_f64 :: "64 word"
  totalLatencyMs_f64 :: "64 word"
  subs_f64 :: "(nat \<times> Result_f64 list) list"

definition NewTracker_f64 :: "TrackerConfig_f64 \<Rightarrow> Tracker_f64 option" where
  "NewTracker_f64 c =
     (if HistorySize_f64 c < 0 then None
      else Some \<lparr>cfg_f64 = c, latest_f64 = zero_Result_f64, history_f64 = [],
                 speakingLatchedAt_f64 = 0, pollCount_f64 = 0, pollErrorCount_f64 = 0,
                 totalLatencyMs_f64 = 0, subs_f64 = []\<rparr>)"

definition updateSpeakingLatch_f64 ::
  "Time \<Rightarrow> Time \<Rightarrow> bool \<Rightarrow> Tracker_f64 \<Rightarrow> bool \<times> Tracker_f64" where
  "updateSpeakingLatch_f64 now since_now rawSpeaking t =
     (if rawSpeaking then (True, t\<lparr>speakingLatchedAt_f64 := now\<rparr>)
      else if time_Sub since_now (speakingLatchedAt_f64 t) <s SpeakingLatchDur_f64 (cfg_f64 t)
      then (True, t)
      else (False, t))"

text \<open>
  \<^verbatim>\<open>calculateConfidence\<close>: \<^verbatim>\<open>conf += ...\<close> adds to the running score, the loop over
  the last five entries adds \<^verbatim>\<open>diff * diff\<close> to \<^verbatim>\<open>variance\<close>, which starts at zero
  and is then divided by 5 and compared with 0.01.
\<close>

definition calculateConfidence_f64 :: "bool \<Rightarrow> float64 \<Rightarrow> Tracker_f64 \<Rightarrow> float64" where
  "calculateConfidence_f64 speaking angle t =
     (let conf = Base_f64 (Confidence_cfg_f64 (cfg_f64 t));
          conf = (if speaking then fadd conf (SpeakingBonus_f64 (Confidence_cfg_f64 (cfg_f64 t)))
                  else conf);
          conf =
            (if length (history_f64 t) \<ge> 5 then
               let variance =
                     foldl (\<lambda>variance r.
                              let diff = fsub (SmoothedAngle_f64 r) angle
                              in fadd variance (fmul diff diff))
                       (Finite 0) (drop (length (history_f64 t) - 5) (history_f64 t));
                   variance = fdiv variance (Finite 5)
               in if flt variance (round64 0.01)
                  then fadd conf (StabilityBonus_f64 (Confidence_cfg_f64 (cfg_f64 t)))
                  else conf
             else conf)
      in Clamp_f64 conf (Finite 0) (Finite 1))"

definition appendHistory_f64 :: "Result_f64 \<Rightarrow> Tracker_f64 \<Rightarrow> Tracker_f64 option" where
  "appendHistory_f64 result t =
     (let h = history_f64 t @ [result]
      in if int (length h) > HistorySize_f64 (cfg_f64 t) then
           (if HistorySize_f64 (cfg_f64 t) < 0 then None
            else Some (t\<lparr>history_f64 :=
                           take (nat (HistorySize_f64 (cfg_f64 t))) (tl h @ [last h])\<rparr>))
         else Some (t\<lparr>history_f64 := h\<rparr>))"

definition notifySubscribers_f64 :: "Result_f64 \<Rightarrow> Tracker_f64 \<Rightarrow> Tracker_f64" where
  "notifySubscribers_f64 result t =
     t\<lparr>subs_f64 :=
         map (\<lambda>(ch, buf). (ch, if length buf < 10 then buf @ [result] else buf)) (subs_f64 t)\<rparr>"

definition poll_f64 ::
  "libm \<Rightarrow> poll_clock \<Rightarrow> error + Reading_f64 \<Rightarrow> Tracker_f64 \<Rightarrow>
     (error option \<times> Tracker_f64) option" where
  "poll_f64 m clk got t =
     (case got of
        Inl err \<Rightarrow> Some (Some err, t\<lparr>pollErrorCount_f64 := pollErrorCount_f64 t + 1\<rparr>)
      | Inr reading0 \<Rightarrow>
          let latencyMs = Milliseconds (time_Sub (clk_after clk) (clk_start clk));
              reading = reading0\<lparr>LatencyMs_f64 := latencyMs\<rparr>;
              t = t\<lparr>pollCount_f64 := pollCount_f64 t + 1,
                     totalLatencyMs_f64 := totalLatencyMs_f64 t + latencyMs\<rparr>;
              (speakingLatched, t) =
                 updateSpeakingLatch_f64 (clk_latch clk) (clk_since clk) (Speaking_f64 reading) t;
              smoothedAngle =
                 (if length (history_f64 t) > 0 then
                    fadd (fmul (EMAAlpha_f64 (cfg_f64 t)) (Angle_f64 reading))
                      (fmul (fsub (Finite 1) (EMAAlpha_f64 (cfg_f64 t)))
                         (SmoothedAngle_f64 (latest_f64 t)))
                  else Angle_f64 reading);
              confidence = calculateConfidence_f64 speakingLatched smoothedAngle t;
              estX = EstimatedX_f64 m reading;
              estY = EstimatedY_f64 m reading;
              result =
                 Reading_f64.extend reading
                   (Result_f64.fields smoothedAngle confidence speakingLatched estX estY);
              t = t\<lparr>latest_f64 := result\<rparr>
          in case appendHistory_f64 result t of
               None \<Rightarrow> None
             | Some t \<Rightarrow> Some (None, notifySubscribers_f64 result t))"

fun run_polls_f64 ::
  "libm \<Rightarrow> (poll_clock \<times> (error + Reading_f64)) list \<Rightarrow> Tracker_f64 \<Rightarrow> Tracker_f64 option" where
  "run_polls_f64 m [] t = Some t"
| "run_polls_f64 m ((clk, got) # ticks) t =
     (case poll_f64 m clk got t of
        None \<Rightarrow> None
      | Some (err, t') \<Rightarrow> run_polls_f64 m ticks t')"

section \<open>Fixtures of the tracker tests (internal/doa/tracker_test.go)\<close>

text \<open>
  The reading that the tests' \<^verbatim>\<open>MockSource.GetDOA\<close> returns for a raw angle and a
  speaking flag, and the configuration of \<^verbatim>\<open>TestTracker_SpeakingLatch\<close>. The tests
  run on the wall clock: \<open>test_start\<close> is an instant of the year 2025 (in nanoseconds
  since the zero \<^verbatim>\<open>time.Time\<close>), and \<open>clock_at ms\<close> is the clock of a poll that
  reads, all four times, the instant \<open>ms\<close> milliseconds after it.
\<close>

definition mock_reading :: "real \<Rightarrow> bool \<Rightarrow> Reading" where
  "mock_reading a sp =
     zero_Reading\<lparr>Angle := ToEvaAngle a, RawAngle := a, Speaking := sp,
                  Timestamp := 63897552000000000000\<rparr>"

definition test_config :: TrackerConfig where
  "test_config =
     \<lparr>PollInterval = 10 * Millisecond,
      SpeakingLatchDur = 50 * Millisecond,
      EMAAlpha = 0.5,
      HistorySize = 10,
      Confidence_cfg = \<lparr>Base = 0.3, SpeakingBonus = 0.4, StabilityBonus = 0.2\<rparr>\<rparr>"

definition test_start :: Time where
  "test_start = 63897552000000000000"

definition clock_at :: "int \<Rightarrow> poll_clock" where
  "clock_at ms =
     (let now = test_start + ms * 1000000
      in \<lparr>clk_start = now, clk_after = now, clk_latch = now, clk_since = now\<rparr>)"

text \<open>
  \<^verbatim>\<open>TestTracker_Confidence\<close> in binary64: its configuration, a reading of the mock
  source with a given angle in Eva coordinates, and the tracker after five polls of a
  silent source straight ahead, 5 ms apart. The mock's readings carry no energy, so the
  math library is not called: \<open>unused_libm\<close> stands for it.
\<close>

definition confidence_test_config :: TrackerConfig_f64 where
  "confidence_test_config =
     \<lparr>PollInterval_f64 = 5 * Millisecond,
      SpeakingLatchDur_f64 = 100 * Millisecond,
      EMAAlpha_f64 = round64 0.5,
      HistorySize_f64 = 10,
      Confidence_cfg_f64 =
        \<lparr>Base_f64 = round64 0.3, SpeakingBonus_f64 = round64 0.4,
         StabilityBonus_f64 = round64 0.2\<rparr>\<rparr>"

definition reading_at :: "float64 \<Rightarrow> bool \<Rightarrow> Reading_f64" where
  "reading_at a sp =
     zero_Reading_f64\<lparr>Angle_f64 := a, Speaking_f64 := sp, Timestamp_f64 := 63897552000000000000\<rparr>"

definition unused_libm :: libm where
  "unused_libm = \<lparr>math_Sqrt = (\<lambda>x. NaN), math_Sin = (\<lambda>x. NaN), math_Cos = (\<lambda>x. NaN)\<rparr>"

definition steady_ticks :: "(poll_clock \<times> (error + Reading_f64)) list" where
  "steady_ticks =
     [(clock_at 5, Inr (reading_at (Finite 0) False)),
      (clock_at 10, Inr (reading_at (Finite 0) False)),
      (clock_at 15, Inr (reading_at (Finite 0) False)),
      (clock_at 20, Inr (reading_at (Finite 0) False)),
      (clock_at 25, Inr (reading_at (Finite 0) False))]"

definition steady_tracker :: "TrackerConfig_f64 \<Rightarrow> Tracker_f64 option" where
  "steady_tracker c =
     (case NewTracker_f64 c of
        None \<Rightarrow> None
      | Some t \<Rightarrow> run_polls_f64 unused_libm steady_ticks t)"

section \<open>Fixtures of the cloud client tests and of the USB source\<close>



definition no_send :: send_env where
  "no_send =
     \<lparr>json_Marshal_msg = (\<lambda>m. Inl (External ''unused'')), deadline_now = 0, written = None\<rparr>"



text \<open>
  A USB source configured with an initial backoff of 200 ms instead of the default
  100 ms; a call whose control transfer fails, and one whose transfer returns nine zero
  bytes (status 0, angle 0, not speaking) and whose enhanced transfers fail.
\<close>

definition custom_usb_config :: USBSourceConfig where
  "custom_usb_config =
     \<lparr>MaxConsecutiveErrors = 5, InitialBackoff = 200 * Millisecond,
      MaxBackoff_usb = 5 * Second\<rparr>"

definition transfer_fails :: usb_env where
  "transfer_fails =
     \<lparr>env_open = Inr (Some 1), env_control = Inl (External ''libusb: timeout''),
      env_energy = Inl (External ''libusb: timeout''),
      env_azimuth = Inl (External ''libusb: timeout''),
      env_start = 0, env_since = 0, env_timestamp = 0, env_error_time = 0\<rparr>"

definition transfer_succeeds :: usb_env where
  "transfer_succeeds =
     \<lparr>env_open = Inr (Some 1), env_control = Inr (9, [0, 0, 0, 0, 0, 0, 0, 0, 0]),
      env_energy = Inl (External ''libusb: pipe error''),
      env_azimuth = Inl (External ''libusb: pipe error''),
      env_start = 0, env_since = 0, env_timestamp = 0, env_error_time = 0\<rparr>"

text \<open>The source that \<^verbatim>\<open>NewUSBSource\<close> returns when it finds the device (handle 1).\<close>

definition opened_source :: USBSource where
  "opened_source =
     \<lparr>ctx = True, dev = Some 1, closed_usb = False, healthy = True,
      consecutiveErrors = 0, maxErrors = 5, lastError = None, lastErrorTime = 0,
      reconnectBackoff = 100 * Millisecond, maxBackoff = 5 * Second\<rparr>"

section \<open>Properties of binary64 rounding\<close>

text \<open>The operations at the infinities and at NaN.\<close>

lemma float64_special_cases:
  "fadd PosInf NegInf = NaN \<and> fadd PosInf (Finite x) = PosInf \<and> fadd (Finite x) NegInf = NegInf
   \<and> fsub PosInf PosInf = NaN \<and> fsub (Finite x) PosInf = NegInf
   \<and> fmul (Finite 0) PosInf = NaN \<and> fmul (Finite (- 2)) NegInf = PosInf
   \<and> fmul NegInf PosInf = NegInf \<and> fmul NegInf NegInf = PosInf
   \<and> fdiv (Finite x) PosInf = Finite 0 \<and> fdiv PosInf NegInf = NaN
   \<and> fdiv NegInf (Finite (- 5)) = PosInf \<and> fdiv (Finite 0) (Finite 0) = NaN
   \<and> \<not> flt NaN y \<and> \<not> flt y NaN \<and> \<not> fle NaN y \<and> \<not> fle y NaN
   \<and> flt NegInf (Finite x) \<and> flt (Finite x) PosInf \<and> \<not> flt PosInf PosInf
   \<and> fle NegInf NegInf \<and> fle PosInf PosInf \<and> \<not> fle PosInf (Finite x)"
  by (cases y) (simp_all add: fsub_def)

text \<open>Rounding to an integer: monotone, and within a half.\<close>

lemma roundToEven_le: "t \<le> of_int k \<Longrightarrow> roundToEven t \<le> k"
  unfolding roundToEven_def Let_def by (auto; linarith)

lemma roundToEven_ge: "of_int k \<le> t \<Longrightarrow> k \<le> roundToEven t"
  unfolding roundToEven_def Let_def by (auto; linarith)

lemma roundToEven_err: "\<bar>of_int (roundToEven t) - t\<bar> \<le> 1 / 2"
  unfolding roundToEven_def Let_def by (auto; linarith)

lemma binade_ge: "- 1022 \<le> binade x"
  by (simp add: binade_def)

lemma ulp64_pos: "0 < ulp64 x"
  by (simp add: ulp64_def)

lemma powr_powi: "2 powr (real_of_int b) = (2::real) powi b" "2 powr (real_of_int b + 1) = (2::real) powi (b + 1)"
  using powr_real_of_int' [of 2 b] powr_real_of_int' [of 2 "b + 1"] by simp_all

lemma floor_log2_bounds:
  assumes "x \<noteq> 0"
  shows "2 powi \<lfloor>log 2 \<bar>x\<bar>\<rfloor> \<le> \<bar>x\<bar> \<and> \<bar>x\<bar> < 2 powi (\<lfloor>log 2 \<bar>x\<bar>\<rfloor> + 1)"
proof -
  have p: "0 < \<bar>x\<bar>" using assms by simp
  have "\<lfloor>log 2 \<bar>x\<bar>\<rfloor> = \<lfloor>log 2 \<bar>x\<bar>\<rfloor>" ..
  then have "2 powr (of_int \<lfloor>log 2 \<bar>x\<bar>\<rfloor>) \<le> \<bar>x\<bar> \<and> \<bar>x\<bar> < 2 powr (of_int \<lfloor>log 2 \<bar>x\<bar>\<rfloor> + 1)"
    using floor_log_eq_powr_iff [OF p, of 2 "\<lfloor>log 2 \<bar>x\<bar>\<rfloor>"] by simp
  then show ?thesis by (simp only: powr_powi)
qed

lemma floor_log2_eq:
  assumes "2 powi b \<le> \<bar>x\<bar>" "\<bar>x\<bar> < 2 powi (b + 1)"
  shows "\<lfloor>log 2 \<bar>x\<bar>\<rfloor> = b"
proof -
  have "(0::real) < 2 powi b" by simp
  with assms have p: "0 < \<bar>x\<bar>" by linarith
  have "2 powr (of_int b) \<le> \<bar>x\<bar> \<and> \<bar>x\<bar> < 2 powr (of_int b + 1)"
    using assms by (simp only: powr_powi)
  then show ?thesis using floor_log_eq_powr_iff [OF p, of 2 b] by simp
qed

lemma powi2_less_D: "(2::real) powi a < 2 powi b \<Longrightarrow> a < b"
proof (rule ccontr)
  assume lt: "(2::real) powi a < 2 powi b" and "\<not> a < b"
  then have "b \<le> a" by simp
  then have "(2::real) powi b \<le> 2 powi a" by (intro power_int_increasing) simp_all
  with lt show False by linarith
qed

text \<open>The binade of a number, from bounds on it.\<close>

lemma binade_eq:
  assumes "2 powi b \<le> \<bar>x\<bar>" "\<bar>x\<bar> < 2 powi (b + 1)" "- 1022 \<le> b"
  shows "binade x = b"
proof -
  have "(0::real) < 2 powi b" by simp
  with assms(1) have "0 < \<bar>x\<bar>" by linarith
  then have "x \<noteq> 0" by simp
  then show ?thesis using floor_log2_eq [OF assms(1,2)] assms(3) by (simp add: binade_def)
qed

lemma binade_subnormal:
  assumes "\<bar>x\<bar> < 2 powi (- 1021)"
  shows "binade x = - 1022"
proof (cases "x = 0")
  case True
  then show ?thesis by (simp add: binade_def)
next
  case False
  from floor_log2_bounds [OF False] assms
  have "(2::real) powi \<lfloor>log 2 \<bar>x\<bar>\<rfloor> < 2 powi (- 1021)" by linarith
  then have "\<lfloor>log 2 \<bar>x\<bar>\<rfloor> < - 1021" by (rule powi2_less_D)
  then show ?thesis using False by (simp add: binade_def)
qed

lemma binade_lower:
  assumes "- 1022 < binade x"
  shows "2 powi (binade x) \<le> \<bar>x\<bar>"
proof -
  from assms have nz: "x \<noteq> 0" by (auto simp add: binade_def)
  with assms have "binade x = \<lfloor>log 2 \<bar>x\<bar>\<rfloor>" by (simp add: binade_def max_def split: if_splits)
  with floor_log2_bounds [OF nz] show ?thesis by simp
qed

lemma binade_upper: "\<bar>x\<bar> < 2 powi (binade x + 1)"
proof (cases "x = 0")
  case True
  then show ?thesis by simp
next
  case False
  have "(2::real) powi (\<lfloor>log 2 \<bar>x\<bar>\<rfloor> + 1) \<le> 2 powi (binade x + 1)"
    using False by (intro power_int_increasing) (simp_all add: binade_def)
  with floor_log2_bounds [OF False] show ?thesis by linarith
qed

lemma binade_le:
  assumes "\<bar>x\<bar> < 2 powi (k + 1)" "- 1022 \<le> k"
  shows "binade x \<le> k"
proof (rule ccontr)
  assume "\<not> binade x \<le> k"
  then have gt: "k + 1 \<le> binade x" by simp
  with assms(2) have "- 1022 < binade x" by simp
  from binade_lower [OF this] have "2 powi (binade x) \<le> \<bar>x\<bar>" .
  moreover have "(2::real) powi (k + 1) \<le> 2 powi (binade x)"
    using gt by (intro power_int_increasing) simp_all
  ultimately show False using assms(1) by linarith
qed


lemma powi2_split: "(2::real) powi b = 2 ^ 52 * 2 powi (b - 52)"
proof -
  have "(2::real) powi b = 2 powi (52 + (b - 52))" by simp
  also have "\<dots> = 2 powi 52 * 2 powi (b - 52)" by (rule power_int_add) simp
  finally show ?thesis by simp
qed

lemma powi2_multiple:
  assumes "q \<le> e"
  shows "(2::real) powi e = of_int (2 ^ nat (e - q)) * 2 powi q"
proof -
  have "(2::real) powi e = 2 powi ((e - q) + q)" by simp
  also have "\<dots> = 2 powi (e - q) * 2 powi q" by (rule power_int_add) simp
  also have "(2::real) powi (e - q) = 2 ^ nat (e - q)"
    using assms by (simp add: power_int_nonneg_exp)
  finally show ?thesis by simp
qed

lemma is_float64I:
  "c = of_int m * 2 powi e \<Longrightarrow> \<bar>m\<bar> < 2 ^ 53 \<Longrightarrow> - 1074 \<le> e \<Longrightarrow> e \<le> 971 \<Longrightarrow> is_float64 c"
  unfolding is_float64_def by blast

lemma is_float64_less: 
  assumes "is_float64 c"
  shows "\<bar>c\<bar> < 2 ^ 1024"
proof -
  from assms obtain m e where c: "c = of_int m * 2 powi e" and m: "\<bar>m\<bar> < 2 ^ 53"
    and e: "e \<le> 971" unfolding is_float64_def by blast
  have "\<bar>c\<bar> = \<bar>of_int m\<bar> * 2 powi e" unfolding c by (simp add: abs_mult)
  also have "\<dots> \<le> \<bar>of_int m\<bar> * 2 powi 971"
    using e by (intro mult_left_mono power_int_increasing) simp_all
  also have "\<dots> < 2 ^ 53 * 2 powi 971"
  proof -
    have "\<bar>real_of_int m\<bar> < 2 ^ 53" using m by (metis of_int_abs of_int_less_numeral_power_cancel_iff)
    then show ?thesis by simp
  qed
  also have "\<dots> = 2 ^ 1024" by simp
  finally show ?thesis .
qed

text \<open>Rounding never crosses a finite binary64 value.\<close>

lemma nearest64_le:
  assumes c: "c = of_int m * 2 powi e" and m: "\<bar>m\<bar> < 2 ^ 53" and e: "- 1074 \<le> e"
    and x: "x \<le> c"
  shows "nearest64 x \<le> c"
proof -
  let ?b = "binade x"
  let ?u = "ulp64 x"
  have u: "?u = 2 powi (?b - 52)" by (simp add: ulp64_def)
  have up: "0 < ?u" by (rule ulp64_pos)
  show ?thesis
  proof (cases "?b - 52 \<le> e")
    case True
    from powi2_multiple [OF True]
    have "c = of_int (m * 2 ^ nat (e - (?b - 52))) * ?u" unfolding c u by simp
    then obtain k where k: "c = of_int k * ?u" by blast
    from x up have "x / ?u \<le> of_int k" unfolding k by (simp add: field_simps)
    then have "roundToEven (x / ?u) \<le> k" by (rule roundToEven_le)
    then have "of_int (roundToEven (x / ?u)) * ?u \<le> of_int k * ?u"
      using up by (intro mult_right_mono) simp_all
    then show ?thesis unfolding nearest64_def k .
  next
    case False
    then have lt: "e + 53 \<le> ?b" by simp
    with e have "- 1022 < ?b" by simp
    from binade_lower [OF this] have lo: "2 powi ?b \<le> \<bar>x\<bar>" .
    have "\<bar>c\<bar> = \<bar>of_int m\<bar> * 2 powi e" unfolding c by (simp add: abs_mult)
    also have "\<dots> < 2 ^ 53 * 2 powi e"
    proof -
      have "\<bar>real_of_int m\<bar> < 2 ^ 53"
        using m by (metis of_int_abs of_int_less_numeral_power_cancel_iff)
      then show ?thesis by simp
    qed
    also have "\<dots> = 2 powi (53 + e)"
    proof -
      have "(2::real) powi (53 + e) = 2 powi 53 * 2 powi e" by (rule power_int_add) simp
      then show ?thesis by simp
    qed
    also have "\<dots> \<le> 2 powi ?b" using lt by (intro power_int_increasing) simp_all
    finally have cb: "\<bar>c\<bar> < 2 powi ?b" .
    with lo x have neg: "x \<le> - (2 powi ?b)" by linarith
    have "2 powi ?b = 2 ^ 52 * ?u" unfolding u by (rule powi2_split)
    with neg up have "x / ?u \<le> of_int (- (2 ^ 52))" by (simp add: field_simps)
    then have "roundToEven (x / ?u) \<le> - (2 ^ 52)" by (rule roundToEven_le)
    then have "of_int (roundToEven (x / ?u)) * ?u \<le> of_int (- (2 ^ 52)) * ?u"
      using up by (intro mult_right_mono) simp_all
    also have "\<dots> = - (2 powi ?b)" unfolding u using powi2_split [of ?b] by simp
    finally have "nearest64 x \<le> - (2 powi ?b)" unfolding nearest64_def .
    with cb show ?thesis by linarith
  qed
qed

lemma nearest64_ge:
  assumes c: "c = of_int m * 2 powi e" and m: "\<bar>m\<bar> < 2 ^ 53" and e: "- 1074 \<le> e"
    and x: "c \<le> x"
  shows "c \<le> nearest64 x"
proof -
  let ?b = "binade x"
  let ?u = "ulp64 x"
  have u: "?u = 2 powi (?b - 52)" by (simp add: ulp64_def)
  have up: "0 < ?u" by (rule ulp64_pos)
  show ?thesis
  proof (cases "?b - 52 \<le> e")
    case True
    from powi2_multiple [OF True]
    have "c = of_int (m * 2 ^ nat (e - (?b - 52))) * ?u" unfolding c u by simp
    then obtain k where k: "c = of_int k * ?u" by blast
    from x up have "of_int k \<le> x / ?u" unfolding k by (simp add: field_simps)
    then have "k \<le> roundToEven (x / ?u)" by (rule roundToEven_ge)
    then have "of_int k * ?u \<le> of_int (roundToEven (x / ?u)) * ?u"
      using up by (intro mult_right_mono) simp_all
    then show ?thesis unfolding nearest64_def k .
  next
    case False
    then have lt: "e + 53 \<le> ?b" by simp
    with e have "- 1022 < ?b" by simp
    from binade_lower [OF this] have lo: "2 powi ?b \<le> \<bar>x\<bar>" .
    have "\<bar>c\<bar> = \<bar>of_int m\<bar> * 2 powi e" unfolding c by (simp add: abs_mult)
    also have "\<dots> < 2 ^ 53 * 2 powi e"
    proof -
      have "\<bar>real_of_int m\<bar> < 2 ^ 53"
        using m by (metis of_int_abs of_int_less_numeral_power_cancel_iff)
      then show ?thesis by simp
    qed
    also have "\<dots> = 2 powi (53 + e)"
    proof -
      have "(2::real) powi (53 + e) = 2 powi 53 * 2 powi e" by (rule power_int_add) simp
      then show ?thesis by simp
    qed
    also have "\<dots> \<le> 2 powi ?b" using lt by (intro power_int_increasing) simp_all
    finally have cb: "\<bar>c\<bar> < 2 powi ?b" .
    with lo x have pos: "2 powi ?b \<le> x" by linarith
    have "2 powi ?b = 2 ^ 52 * ?u" unfolding u by (rule powi2_split)
    with pos up have "of_int (2 ^ 52) \<le> x / ?u" by (simp add: field_simps)
    then have "2 ^ 52 \<le> roundToEven (x / ?u)" by (rule roundToEven_ge)
    then have "of_int (2 ^ 52) * ?u \<le> of_int (roundToEven (x / ?u)) * ?u"
      using up by (intro mult_right_mono) simp_all
    moreover have "of_int (2 ^ 52) * ?u = 2 powi ?b" unfolding u using powi2_split [of ?b] by simp
    ultimately have "2 powi ?b \<le> nearest64 x" unfolding nearest64_def by simp
    with cb show ?thesis by linarith
  qed
qed

lemma nearest64_err: "\<bar>nearest64 x - x\<bar> \<le> ulp64 x / 2"
proof -
  have up: "0 < ulp64 x" by (rule ulp64_pos)
  have "nearest64 x - x = (of_int (roundToEven (x / ulp64 x)) - x / ulp64 x) * ulp64 x"
    using up by (simp add: nearest64_def field_simps)
  then have "\<bar>nearest64 x - x\<bar> = \<bar>of_int (roundToEven (x / ulp64 x)) - x / ulp64 x\<bar> * ulp64 x"
    using up by (simp add: abs_mult)
  also have "\<dots> \<le> (1 / 2) * ulp64 x"
    using up roundToEven_err [of "x / ulp64 x"] by (intro mult_right_mono) simp_all
  finally show ?thesis by simp
qed

lemma round64_between:
  assumes lo: "is_float64 lo" and hi: "is_float64 hi" and x: "lo \<le> x" "x \<le> hi"
  shows "\<exists>r. round64 x = Finite r \<and> lo \<le> r \<and> r \<le> hi"
proof -
  from lo obtain m e where l: "lo = of_int m * 2 powi e" "\<bar>m\<bar> < 2 ^ 53" "- 1074 \<le> e"
    unfolding is_float64_def by blast
  from hi obtain n f where h: "hi = of_int n * 2 powi f" "\<bar>n\<bar> < 2 ^ 53" "- 1074 \<le> f"
    unfolding is_float64_def by blast
  from nearest64_ge [OF l x(1)] have a: "lo \<le> nearest64 x" .
  from nearest64_le [OF h x(2)] have b: "nearest64 x \<le> hi" .
  from is_float64_less [OF lo] is_float64_less [OF hi] a b
  have "- (2 ^ 1024) < nearest64 x \<and> nearest64 x < 2 ^ 1024" by linarith
  then have "round64 x = Finite (nearest64 x)" by (simp add: round64_def Let_def)
  with a b show ?thesis by simp
qed

lemma round64_exact: "is_float64 c \<Longrightarrow> round64 c = Finite c"
  using round64_between [of c c c] by auto

text \<open>Rounding evaluated, for a number whose binade is known.\<close>

lemma round64_eval:
  assumes "2 powi b \<le> \<bar>x\<bar>" "\<bar>x\<bar> < 2 powi (b + 1)" "- 1022 \<le> b"
  shows "round64 x =
     (let r = of_int (roundToEven (x / 2 powi (b - 52))) * 2 powi (b - 52)
      in if 2 ^ 1024 \<le> r then PosInf else if r \<le> - (2 ^ 1024) then NegInf else Finite r)"
  using binade_eq [OF assms] by (simp add: round64_def nearest64_def ulp64_def)

lemma round64_exactI:
  "x = of_int m * 2 powi e \<Longrightarrow> \<bar>m\<bar> < 2 ^ 53 \<Longrightarrow> - 1074 \<le> e \<Longrightarrow> e \<le> 971 \<Longrightarrow> round64 x = Finite x"
  by (rule round64_exact) (rule is_float64I)

lemma round64_zero: "round64 0 = Finite 0"
  by (simp add: round64_def nearest64_def roundToEven_def Let_def)

text \<open>
  Known values: \<^verbatim>\<open>0.1\<close>, \<^verbatim>\<open>1 - 0.3\<close> (a tie, rounded to the even significand) and
  \<^verbatim>\<open>0.1 + 0.2\<close>, which is \<^verbatim>\<open>0.30000000000000004\<close>; half the smallest subnormal and three
  halves of it (ties); and the largest finite value, with the overflow threshold just above
  it.
\<close>

lemma round64_known_values:
  "round64 (1 / 10) = Finite (3602879701896397 / 2 ^ 55)"
  "fsub (Finite 1) (Finite (5404319552844595 / 2 ^ 54)) = Finite (3152519739159347 / 2 ^ 52)"
  "fadd (Finite (3602879701896397 / 2 ^ 55)) (Finite (3602879701896397 / 2 ^ 54))
     = Finite (1351079888211149 / 2 ^ 52)"
  "round64 (1 / 2 ^ 1075) = Finite 0"
  "round64 (3 / 2 ^ 1075) = Finite (1 / 2 ^ 1073)"
  "round64 (2 ^ 1024 - 2 ^ 970 - 1) = Finite (2 ^ 1024 - 2 ^ 971)"
  "round64 (2 ^ 1024 - 2 ^ 970) = PosInf"
  "round64 (- (2 ^ 1024)) = NegInf"
        apply (subst round64_eval [of "- 4"], simp, simp, simp, simp add: roundToEven_def Let_def)
       apply (simp only: fsub_def fneg.simps fadd.simps)
       apply (subst round64_eval [of "- 1"], simp, simp, simp, simp add: roundToEven_def Let_def)
      apply (simp only: fadd.simps)
      apply (subst round64_eval [of "- 2"], simp, simp, simp, simp add: roundToEven_def Let_def)
     apply (simp add: round64_def nearest64_def ulp64_def binade_subnormal roundToEven_def Let_def)
    apply (simp add: round64_def nearest64_def ulp64_def binade_subnormal roundToEven_def Let_def)
   apply (subst round64_eval [of 1023], simp, simp, simp, simp add: roundToEven_def Let_def)
  apply (subst round64_eval [of 1023], simp, simp, simp, simp add: roundToEven_def Let_def)
  apply (subst round64_eval [of 1024], simp, simp, simp, simp add: roundToEven_def Let_def)
  done

section \<open>Properties of the angle normalization\<close>

text \<open>
  The three constants of the loops, and the loops' steps: below \<open>2\<^sup>5\<^sup>6\<close> in magnitude
  the unit in the last place is at most 8, so that a step moves the angle by at least 2
  towards the interval, and it does not pass the far end of the interval, which is a
  binary64 value.
\<close>

lemma round64_math_Pi:
  "round64 math_Pi = Finite Pi64"
  "round64 (2 * math_Pi) = Finite (2 * Pi64)"
  "round64 (- math_Pi) = Finite (- Pi64)"
    apply (subst round64_eval [of 1], simp add: math_Pi_def, simp add: math_Pi_def, simp,
      simp add: math_Pi_def Pi64_def roundToEven_def Let_def)
    apply (subst round64_eval [of 2], simp add: math_Pi_def, simp add: math_Pi_def, simp,
      simp add: math_Pi_def Pi64_def roundToEven_def Let_def)
    apply (subst round64_eval [of 1], simp add: math_Pi_def, simp add: math_Pi_def, simp,
      simp add: math_Pi_def Pi64_def roundToEven_def Let_def)
  done

lemma is_float64_Pi64: "is_float64 Pi64" "is_float64 (- Pi64)"
  by (rule is_float64I [of _ 7074237752028440 "- 51"], simp_all add: Pi64_def)
     (rule is_float64I [of _ "- 7074237752028440" "- 51"], simp_all add: Pi64_def)

lemma is_float64_2_56: "is_float64 (2 ^ 56)" "is_float64 (- (2 ^ 56))"
  by (rule is_float64I [of _ 1 56], simp_all)
     (rule is_float64I [of _ "- 1" 56], simp_all)

lemma ulp64_le_8:
  assumes "\<bar>y\<bar> < 2 ^ 56"
  shows "ulp64 y \<le> 8"
proof -
  have "\<bar>y\<bar> < 2 powi (55 + 1)" using assms by simp
  then have "binade y \<le> 55" by (rule binade_le) simp
  then have "(2::real) powi (binade y - 52) \<le> 2 powi 3"
    by (intro power_int_increasing) simp_all
  then show ?thesis by (simp add: ulp64_def)
qed

lemma round64_near:
  assumes "round64 y = Finite r" "\<bar>y\<bar> < 2 ^ 56"
  shows "\<bar>r - y\<bar> \<le> 4"
proof -
  from assms(1) have "r = nearest64 y" by (simp add: round64_def Let_def split: if_splits)
  with nearest64_err [of y] ulp64_le_8 [OF assms(2)] show ?thesis by simp
qed

lemma Pi64_bounds: "3 < Pi64" "Pi64 < 4"
  by (simp_all add: Pi64_def)

lemma down_step:
  assumes "Pi64 < x" "x < 2 ^ 56"
  shows "\<exists>r. fsub (Finite x) (Finite (2 * Pi64)) = Finite r \<and> - Pi64 \<le> r \<and> r \<le> x - 2"
proof -
  let ?y = "x + - (2 * Pi64)"
  have y: "- Pi64 \<le> ?y" "?y \<le> 2 ^ 56" "\<bar>?y\<bar> < 2 ^ 56" using assms Pi64_bounds by simp_all
  from round64_between [OF is_float64_Pi64(2) is_float64_2_56(1) y(1,2)] obtain r where
    r: "round64 ?y = Finite r" "- Pi64 \<le> r" by blast
  from round64_near [OF r(1) y(3)] Pi64_bounds have "r \<le> x - 2" by simp
  with r show ?thesis by (simp add: fsub_def)
qed

lemma up_step:
  assumes "x < - Pi64" "- (2 ^ 56) < x"
  shows "\<exists>r. fadd (Finite x) (Finite (2 * Pi64)) = Finite r \<and> x + 2 \<le> r \<and> r \<le> Pi64"
proof -
  let ?y = "x + 2 * Pi64"
  have y: "- (2 ^ 56) \<le> ?y" "?y \<le> Pi64" "\<bar>?y\<bar> < 2 ^ 56" using assms Pi64_bounds by simp_all
  from round64_between [OF is_float64_2_56(2) is_float64_Pi64(1) y(1,2)] obtain r where
    r: "round64 ?y = Finite r" "r \<le> Pi64" by blast
  from round64_near [OF r(1) y(3)] Pi64_bounds have "x + 2 \<le> r" by simp
  with r show ?thesis by simp
qed

lemma NormalizeAngle_down_returns:
  assumes "x < 2 ^ 56"
  shows "\<exists>r. NormalizeAngle_down (Finite x) = Some (Finite r) \<and> r \<le> Pi64
     \<and> (if x \<le> Pi64 then r = x else - Pi64 \<le> r)"
  using assms
proof (induction "nat \<lceil>x\<rceil>" arbitrary: x rule: less_induct)
  case less
  show ?case
  proof (cases "x \<le> Pi64")
    case True
    then show ?thesis
      by (subst NormalizeAngle_down.simps) (simp add: round64_math_Pi fgt_def)
  next
    case False
    then have gt: "Pi64 < x" by simp
    from down_step [OF gt less.prems] obtain r where
      r: "fsub (Finite x) (Finite (2 * Pi64)) = Finite r" "- Pi64 \<le> r" "r \<le> x - 2" by blast
    have "nat \<lceil>r\<rceil> < nat \<lceil>x\<rceil>" using r(3) gt Pi64_bounds by linarith
    moreover have "r < 2 ^ 56" using r(3) less.prems by linarith
    ultimately obtain r' where
      r': "NormalizeAngle_down (Finite r) = Some (Finite r')" "r' \<le> Pi64"
        "if r \<le> Pi64 then r' = r else - Pi64 \<le> r'"
      using less.hyps [of r] by blast
    have "NormalizeAngle_down (Finite x) = NormalizeAngle_down (Finite r)"
      using gt r(1) by (subst NormalizeAngle_down.simps) (simp add: round64_math_Pi fgt_def)
    moreover have "- Pi64 \<le> r'" using r'(3) r(2) by (simp split: if_splits)
    ultimately show ?thesis using r' False by simp
  qed
qed

lemma NormalizeAngle_up_returns:
  assumes "- (2 ^ 56) < x" "x \<le> Pi64"
  shows "\<exists>r. NormalizeAngle_up (Finite x) = Some (Finite r) \<and> - Pi64 \<le> r \<and> r \<le> Pi64"
  using assms
proof (induction "nat \<lceil>- x\<rceil>" arbitrary: x rule: less_induct)
  case less
  show ?case
  proof (cases "- Pi64 \<le> x")
    case True
    then show ?thesis using less.prems
      by (subst NormalizeAngle_up.simps) (simp add: round64_math_Pi)
  next
    case False
    then have lt: "x < - Pi64" by simp
    from up_step [OF lt less.prems(1)] obtain r where
      r: "fadd (Finite x) (Finite (2 * Pi64)) = Finite r" "x + 2 \<le> r" "r \<le> Pi64" by blast
    have "nat \<lceil>- r\<rceil> < nat \<lceil>- x\<rceil>" using r(2) lt Pi64_bounds by linarith
    moreover have "- (2 ^ 56) < r" using r(2) less.prems by linarith
    ultimately obtain r' where
      r': "NormalizeAngle_up (Finite r) = Some (Finite r')" "- Pi64 \<le> r'" "r' \<le> Pi64"
      using less.hyps [of r] r(3) by blast
    have "NormalizeAngle_up (Finite x) = NormalizeAngle_up (Finite r)"
      using lt r(1) by (subst NormalizeAngle_up.simps) (simp add: round64_math_Pi)
    with r' show ?thesis by simp
  qed
qed

text \<open>
  C5, as amended. For every finite input \<open>a\<close> below \<open>2\<^sup>5\<^sup>6\<close> in magnitude
  \<^verbatim>\<open>NormalizeAngle\<close> returns, and its result lies in the closed interval from
  \<^verbatim>\<open>-math.Pi\<close> to \<^verbatim>\<open>math.Pi\<close>.
\<close>

theorem NormalizeAngle_range:
  assumes "\<bar>x\<bar> < 2 ^ 56"
  shows "\<exists>r. NormalizeAngle (Finite x) = Some r
     \<and> fle (round64 (- math_Pi)) r \<and> fle r (round64 math_Pi)"
proof -
  from assms have "x < 2 ^ 56" by simp
  from NormalizeAngle_down_returns [OF this] obtain r where
    r: "NormalizeAngle_down (Finite x) = Some (Finite r)" "r \<le> Pi64"
      "if x \<le> Pi64 then r = x else - Pi64 \<le> r" by blast
  have "- (2 ^ 56) < r" using r(3) assms Pi64_bounds by (simp split: if_splits)
  from NormalizeAngle_up_returns [OF this r(2)] obtain r' where
    "NormalizeAngle_up (Finite r) = Some (Finite r')" "- Pi64 \<le> r'" "r' \<le> Pi64" by blast
  with r(1) show ?thesis by (simp add: NormalizeAngle_def round64_math_Pi)
qed

text \<open>The two steps of the first loop from 10: both subtractions are exact.\<close>

lemma step10: "fsub (Finite 10) (Finite (2 * Pi64)) = Finite (523095164549725 / 2 ^ 47)"
  unfolding fsub_def fneg.simps fadd.simps
  by (subst round64_eval [of 1]) (simp_all add: Pi64_def roundToEven_def Let_def)

lemma step10': "fsub (Finite (523095164549725 / 2 ^ 47)) (Finite (2 * Pi64)) = Finite (- 180592277226915 / 2 ^ 46)"
  unfolding fsub_def fneg.simps fadd.simps
  by (subst round64_eval [of 1]) (simp_all add: Pi64_def roundToEven_def Let_def)

text \<open>
  Witness of C5: 10 is normalized in two steps of the first loop, both exact, to
  \<open>10 - 4\<pi>\<close> as binary64 has it, \<^verbatim>\<open>-2.5663706143591725\<close>.
\<close>

theorem NormalizeAngle_range_witness:
  "\<bar>10 :: real\<bar> < 2 ^ 56
   \<and> NormalizeAngle (Finite 10) = Some (Finite (- 180592277226915 / 2 ^ 46))
   \<and> fle (round64 (- math_Pi)) (Finite (- 180592277226915 / 2 ^ 46))
   \<and> fle (Finite (- 180592277226915 / 2 ^ 46)) (round64 math_Pi)"
proof -
  have b: "\<bar>10 :: real\<bar> < 2 ^ 56" by simp
  have d: "NormalizeAngle_down (Finite 10) = Some (Finite (- 180592277226915 / 2 ^ 46))"
    apply (subst NormalizeAngle_down.simps)
    apply (simp only: round64_math_Pi step10 fgt_def flt.simps)
    apply (subst NormalizeAngle_down.simps)
    apply (simp only: round64_math_Pi step10' fgt_def flt.simps)
    apply (subst NormalizeAngle_down.simps)
    apply (simp add: round64_math_Pi fgt_def Pi64_def)
    done
  have u: "NormalizeAngle_up (Finite (- 180592277226915 / 2 ^ 46)) = Some (Finite (- 180592277226915 / 2 ^ 46))"
    by (subst NormalizeAngle_up.simps) (simp add: round64_math_Pi Pi64_def)
  from NormalizeAngle_range [OF b] d u show ?thesis
    by (simp add: NormalizeAngle_def)
qed

text \<open>
  At \<open>10\<^sup>1\<^sup>7\<close> the unit in the last place is 16: subtracting \<^verbatim>\<open>2 * math.Pi\<close> rounds
  back to \<open>10\<^sup>1\<^sup>7\<close>, and the first loop does not end.
\<close>

lemma NormalizeAngle_down_large:
  assumes "NormalizeAngle_down angle = Some y"
  shows "angle \<noteq> Finite (10 ^ 17)"
proof (rule NormalizeAngle_down.raw_induct [where P = "\<lambda>angle y. angle \<noteq> Finite (10 ^ 17)", OF _ assms])
  fix f :: "float64 \<Rightarrow> float64 option" and angle y
  assume IH: "\<And>x y. f x = Some y \<Longrightarrow> x \<noteq> Finite (10 ^ 17)"
    and eq: "(if fgt angle (round64 math_Pi) then f (fsub angle (round64 (2 * math_Pi)))
              else Some angle) = Some y"
  show "angle \<noteq> Finite (10 ^ 17)"
  proof
    assume a: "angle = Finite (10 ^ 17)"
    have s: "fsub (Finite (10 ^ 17)) (round64 (2 * math_Pi)) = Finite (10 ^ 17)"
      unfolding round64_math_Pi fsub_def fneg.simps fadd.simps
      by (subst round64_eval [of 56]) (simp_all add: Pi64_def roundToEven_def Let_def)
    have g: "fgt (Finite (10 ^ 17)) (round64 math_Pi)"
      by (simp add: round64_math_Pi fgt_def Pi64_def)
    from eq have "f (Finite (10 ^ 17)) = Some y" unfolding a using g s by simp
    from IH [OF this] show False by simp
  qed
qed

text \<open>
  C5 as stated fails: \<^verbatim>\<open>NormalizeAngle(-math.Pi)\<close> is \<^verbatim>\<open>-math.Pi\<close>, which is not
  strictly above \<^verbatim>\<open>-math.Pi\<close>, \<^verbatim>\<open>NormalizeAngle(-3 * math.Pi)\<close> is \<^verbatim>\<open>-math.Pi\<close> as
  well, and \<^verbatim>\<open>NormalizeAngle(1e17)\<close> does not return.
\<close>

theorem NormalizeAngle_open_counterexample:
  "NormalizeAngle (round64 (- math_Pi)) = Some (round64 (- math_Pi))
   \<and> \<not> fgt (round64 (- math_Pi)) (round64 (- math_Pi))
   \<and> NormalizeAngle (round64 (- 3 * math_Pi)) = Some (round64 (- math_Pi))
   \<and> NormalizeAngle (Finite (10 ^ 17)) = None"
proof -
  have d: "NormalizeAngle_down (Finite (- Pi64)) = Some (Finite (- Pi64))"
    by (subst NormalizeAngle_down.simps) (simp add: round64_math_Pi fgt_def Pi64_def)
  have u: "NormalizeAngle_up (Finite (- Pi64)) = Some (Finite (- Pi64))"
    by (subst NormalizeAngle_up.simps) (simp add: round64_math_Pi)
  have t: "round64 (- 3 * math_Pi) = Finite (- 3 * Pi64)"
    by (subst round64_eval [of 3]) (simp_all add: math_Pi_def Pi64_def roundToEven_def Let_def)
  have d3: "NormalizeAngle_down (Finite (- 3 * Pi64)) = Some (Finite (- 3 * Pi64))"
    by (subst NormalizeAngle_down.simps) (simp add: round64_math_Pi fgt_def Pi64_def)
  have a3: "fadd (Finite (- 3 * Pi64)) (Finite (2 * Pi64)) = Finite (- Pi64)"
    using round64_exact [OF is_float64_Pi64(2)] by simp
  have u3: "NormalizeAngle_up (Finite (- 3 * Pi64)) = Some (Finite (- Pi64))"
    apply (subst NormalizeAngle_up.simps)
    apply (simp only: round64_math_Pi a3)
    apply (subst NormalizeAngle_up.simps)
    apply (simp add: round64_math_Pi Pi64_def)
    done
  have l: "NormalizeAngle_down (Finite (10 ^ 17)) = None"
    using NormalizeAngle_down_large [of "Finite (10 ^ 17)"] by (cases "NormalizeAngle_down (Finite (10 ^ 17))") auto
  from d u t d3 u3 l show ?thesis
    by (simp add: NormalizeAngle_def round64_math_Pi fgt_def)
qed

section \<open>Properties of durations\<close>

lemma sint_word_of_int_64:
  "- (2 ^ 63) \<le> x \<Longrightarrow> x < 2 ^ 63 \<Longrightarrow> sint (word_of_int x :: 64 word) = x"
  by (simp add: signed_of_int signed_take_bit_int_eq_self)

lemma sint_64_bounds: "- (2 ^ 63) \<le> sint (d :: 64 word) \<and> sint d < 2 ^ 63"
  using sint_ge [of d] sint_lt [of d] by simp

lemma time_Sub_lt:
  assumes "u \<le> t" "t < u + sint d"
  shows "time_Sub t u <s d"
proof -
  have b: "sint d < 2 ^ 63" using sint_64_bounds by blast
  have r: "0 \<le> t - u" "t - u < 2 ^ 63" using assms b by linarith+
  then have "time_Sub t u = word_of_int (t - u)"
    by (simp add: time_Sub_def Let_def maxDuration_def minDuration_def)
  moreover have "sint (word_of_int (t - u) :: 64 word) = t - u"
    using r by (intro sint_word_of_int_64) linarith+
  ultimately show ?thesis using assms by (simp add: word_sless_alt)
qed

lemma time_Sub_ge:
  assumes "u + sint d \<le> t"
  shows "\<not> time_Sub t u <s d"
proof -
  have b: "- (2 ^ 63) \<le> sint d" "sint d < 2 ^ 63" using sint_64_bounds by blast+
  show ?thesis
  proof (cases "t - u > maxDuration")
    case True
    then have "time_Sub t u = word_of_int (2 ^ 63 - 1)"
      by (simp add: time_Sub_def Let_def maxDuration_def)
    moreover have "sint (word_of_int (2 ^ 63 - 1) :: 64 word) = 2 ^ 63 - 1"
      by (intro sint_word_of_int_64) simp_all
    ultimately show ?thesis using b by (simp add: word_sless_alt)
  next
    case False
    then have r: "t - u < 2 ^ 63" "- (2 ^ 63) \<le> t - u"
      using assms b by (simp_all add: maxDuration_def)
    then have "time_Sub t u = word_of_int (t - u)"
      using False by (simp add: time_Sub_def Let_def minDuration_def)
    moreover have "sint (word_of_int (t - u) :: 64 word) = t - u"
      using r by (intro sint_word_of_int_64) linarith+
    ultimately show ?thesis using assms by (simp add: word_sless_alt)
  qed
qed

section \<open>Properties of the tracker\<close>

lemma calculateConfidence_cong:
  "cfg t = cfg u \<Longrightarrow> history t = history u \<Longrightarrow>
   calculateConfidence s a t = calculateConfidence s a u"
  by (simp add: calculateConfidence_def Let_def)

text \<open>
  A poll on an error of the source only counts the error; a poll on a reading returns
  (for a history size that is not negative) and stores the result described here.
\<close>

lemma poll_Inl:
  "poll clk (Inl e) t = Some (Some e, t\<lparr>pollErrorCount := pollErrorCount t + 1\<rparr>)"
  by (simp add: poll_def)

lemma poll_Inr:
  assumes "0 \<le> HistorySize (cfg t)"
  shows "\<exists>t'. poll clk (Inr rd) t = Some (None, t') \<and> cfg t' = cfg t
     \<and> SpeakingLatched (latest t') =
          (Speaking rd \<or> time_Sub (clk_since clk) (speakingLatchedAt t) <s SpeakingLatchDur (cfg t))
     \<and> SmoothedAngle (latest t') =
          (if history t \<noteq> [] then
             EMAAlpha (cfg t) * Angle rd + (1 - EMAAlpha (cfg t)) * SmoothedAngle (latest t)
           else Angle rd)
     \<and> Confidence (latest t') =
          calculateConfidence (SpeakingLatched (latest t')) (SmoothedAngle (latest t')) t
     \<and> speakingLatchedAt t' = (if Speaking rd then clk_latch clk else speakingLatchedAt t)
     \<and> history t' =
          (if int (length (history t)) + 1 > HistorySize (cfg t) then
             take (nat (HistorySize (cfg t))) (tl (history t @ [latest t']) @ [latest t'])
           else history t @ [latest t'])"
  using assms
  apply (simp add: poll_def Let_def updateSpeakingLatch_def appendHistory_def
      notifySubscribers_def Reading.extend_def Result.fields_def split: prod.splits)
  apply (auto intro: calculateConfidence_cong)
  done

lemma poll_total:
  assumes "0 \<le> HistorySize (cfg t)"
  shows "\<exists>e t'. poll clk got t = Some (e, t') \<and> cfg t' = cfg t"
proof (cases got)
  case (Inl e)
  then show ?thesis by (simp add: poll_Inl)
next
  case (Inr rd)
  then show ?thesis using poll_Inr [OF assms, of clk rd] by blast
qed

lemma run_polls_total:
  assumes "0 \<le> HistorySize (cfg t)"
  shows "\<exists>t'. run_polls ticks t = Some t' \<and> cfg t' = cfg t"
  using assms
proof (induction ticks arbitrary: t)
  case Nil
  then show ?case by simp
next
  case (Cons tick ticks)
  obtain clk got where tick: "tick = (clk, got)" by (cases tick)
  from poll_total [OF Cons.prems, of clk got] obtain e u where
    u: "poll clk got t = Some (e, u)" "cfg u = cfg t" by blast
  from Cons.IH [of u] Cons.prems u(2) obtain t' where
    "run_polls ticks u = Some t'" "cfg t' = cfg u" by auto
  with u tick show ?case by simp
qed

subsection \<open>Confidence and the base score\<close>

lemma calculateConfidence_ge_base:
  assumes "0 \<le> Base (Confidence_cfg (cfg t))" "Base (Confidence_cfg (cfg t)) \<le> 1"
    "0 \<le> SpeakingBonus (Confidence_cfg (cfg t))" "0 \<le> StabilityBonus (Confidence_cfg (cfg t))"
  shows "Base (Confidence_cfg (cfg t)) \<le> calculateConfidence s a t"
  using assms by (simp add: calculateConfidence_def Let_def Clamp_def)

lemma poll_keeps_confidence_ge_base:
  assumes c: "0 \<le> Base (Confidence_cfg (cfg t))" "Base (Confidence_cfg (cfg t)) \<le> 1"
    "0 \<le> SpeakingBonus (Confidence_cfg (cfg t))" "0 \<le> StabilityBonus (Confidence_cfg (cfg t))"
    and hs: "0 \<le> HistorySize (cfg t)"
    and inv: "Base (Confidence_cfg (cfg t)) \<le> Confidence (latest t)"
  shows "\<exists>e t'. poll clk got t = Some (e, t') \<and> cfg t' = cfg t
     \<and> Base (Confidence_cfg (cfg t')) \<le> Confidence (latest t')"
proof (cases got)
  case (Inl e)
  then show ?thesis using inv by (simp add: poll_Inl)
next
  case (Inr rd)
  from poll_Inr [OF hs, of clk rd] obtain t' where
    p: "poll clk (Inr rd) t = Some (None, t')" "cfg t' = cfg t"
    "Confidence (latest t') =
       calculateConfidence (SpeakingLatched (latest t')) (SmoothedAngle (latest t')) t"
    by blast
  then show ?thesis using Inr calculateConfidence_ge_base [OF c] by simp
qed

lemma run_polls_keeps_confidence_ge_base:
  assumes "0 \<le> Base (Confidence_cfg (cfg t))" "Base (Confidence_cfg (cfg t)) \<le> 1"
    "0 \<le> SpeakingBonus (Confidence_cfg (cfg t))" "0 \<le> StabilityBonus (Confidence_cfg (cfg t))"
    and "0 \<le> HistorySize (cfg t)"
    and "Base (Confidence_cfg (cfg t)) \<le> Confidence (latest t)"
  shows "\<exists>t'. run_polls ticks t = Some t' \<and> cfg t' = cfg t
     \<and> Base (Confidence_cfg (cfg t')) \<le> Confidence (latest t')"
  using assms
proof (induction ticks arbitrary: t)
  case Nil
  then show ?case by simp
next
  case (Cons tick ticks)
  obtain clk got where tick: "tick = (clk, got)" by (cases tick)
  from poll_keeps_confidence_ge_base [OF Cons.prems, of clk got] obtain e t1 where
    p: "poll clk got t = Some (e, t1)" "cfg t1 = cfg t"
    "Base (Confidence_cfg (cfg t1)) \<le> Confidence (latest t1)"
    by blast
  from Cons.IH [of t1] Cons.prems p obtain t' where
    "run_polls ticks t1 = Some t'" "cfg t' = cfg t1"
    "Base (Confidence_cfg (cfg t')) \<le> Confidence (latest t')"
    by auto
  with p tick show ?case by simp
qed

text \<open>
  C10, as amended. For every tracker configuration with \<^verbatim>\<open>confidence.base\<close> in
  \<open>[0, 1]\<close>, a speaking bonus and a stability bonus that are not negative, and a history
  size that is not negative: a poll on a reading returns, the confidence of its result is
  at least the base, and after it, whatever polls follow (failed or successful),
  \<^verbatim>\<open>GetTarget\<close> returns the smoothed angle and the confidence of the latest result with
  \<open>ok = true\<close>.
\<close>

theorem confidence_at_least_base:
  assumes c: "0 \<le> Base (Confidence_cfg (cfg t))" "Base (Confidence_cfg (cfg t)) \<le> 1"
    "0 \<le> SpeakingBonus (Confidence_cfg (cfg t))" "0 \<le> StabilityBonus (Confidence_cfg (cfg t))"
    and hs: "0 \<le> HistorySize (cfg t)"
  shows "\<exists>t'. poll clk (Inr rd) t = Some (None, t')
     \<and> Base (Confidence_cfg (cfg t)) \<le> Confidence (latest t')
     \<and> (\<forall>ticks. \<exists>t''. run_polls ticks t' = Some t''
            \<and> Base (Confidence_cfg (cfg t)) \<le> Confidence (latest t'')
            \<and> GetTarget t'' = (SmoothedAngle (latest t''), Confidence (latest t''), True))"
proof -
  from poll_Inr [OF hs, of clk rd] obtain t' where
    p: "poll clk (Inr rd) t = Some (None, t')" "cfg t' = cfg t"
    "Confidence (latest t') =
       calculateConfidence (SpeakingLatched (latest t')) (SmoothedAngle (latest t')) t"
    by blast
  have b: "Base (Confidence_cfg (cfg t)) \<le> Confidence (latest t')"
    using p calculateConfidence_ge_base [OF c] by simp
  have "\<exists>t''. run_polls ticks t' = Some t''
            \<and> Base (Confidence_cfg (cfg t)) \<le> Confidence (latest t'')
            \<and> GetTarget t'' = (SmoothedAngle (latest t''), Confidence (latest t''), True)" for ticks
  proof -
    from run_polls_keeps_confidence_ge_base [of t' ticks] c hs b p(2) obtain t'' where
      r: "run_polls ticks t' = Some t''" "cfg t'' = cfg t'"
      "Base (Confidence_cfg (cfg t'')) \<le> Confidence (latest t'')"
      by auto
    then show ?thesis using p(2) by (simp add: GetTarget_def)
  qed
  with p(1) b show ?thesis by blast
qed

text \<open>Witness of C10: the test configuration (base 0.3, bonuses 0.4 and 0.2).\<close>

theorem confidence_at_least_base_witness:
  "0 \<le> Base (Confidence_cfg (cfg (the (NewTracker test_config))))
   \<and> Base (Confidence_cfg (cfg (the (NewTracker test_config)))) \<le> 1
   \<and> 0 \<le> SpeakingBonus (Confidence_cfg (cfg (the (NewTracker test_config))))
   \<and> 0 \<le> StabilityBonus (Confidence_cfg (cfg (the (NewTracker test_config))))
   \<and> 0 \<le> HistorySize (cfg (the (NewTracker test_config)))
   \<and> (\<exists>t'. poll (clock_at 10) (Inr (mock_reading (pi / 2) False)) (the (NewTracker test_config))
               = Some (None, t')
          \<and> 3 / 10 \<le> Confidence (latest t')
          \<and> GetTarget t' = (SmoothedAngle (latest t'), Confidence (latest t'), True))"
proof -
  let ?t0 = "the (NewTracker test_config)"
  have h1: "0 \<le> Base (Confidence_cfg (cfg ?t0))"
    and h2: "Base (Confidence_cfg (cfg ?t0)) \<le> 1"
    and h3: "0 \<le> SpeakingBonus (Confidence_cfg (cfg ?t0))"
    and h4: "0 \<le> StabilityBonus (Confidence_cfg (cfg ?t0))"
    and h5: "0 \<le> HistorySize (cfg ?t0)"
    and b: "Base (Confidence_cfg (cfg ?t0)) = 3 / 10"
    by (simp_all add: NewTracker_def test_config_def)
  from confidence_at_least_base [OF h1 h2 h3 h4 h5, of "clock_at 10" "mock_reading (pi / 2) False"]
  obtain t' where
    p: "poll (clock_at 10) (Inr (mock_reading (pi / 2) False)) ?t0 = Some (None, t')"
    "Base (Confidence_cfg (cfg ?t0)) \<le> Confidence (latest t')"
    "\<forall>ticks. \<exists>t''. run_polls ticks t' = Some t''
            \<and> Base (Confidence_cfg (cfg ?t0)) \<le> Confidence (latest t'')
            \<and> GetTarget t'' = (SmoothedAngle (latest t''), Confidence (latest t''), True)"
    by blast
  from p(3) [rule_format, of "[]"]
  have "GetTarget t' = (SmoothedAngle (latest t'), Confidence (latest t'), True)" by simp
  with h1 h2 h3 h4 h5 p(1,2) b show ?thesis by auto
qed

text \<open>
  C10 as stated fails for a negative bonus, which the configuration type and
  \<^verbatim>\<open>Validate\<close> both accept: with base 0.5 and speaking bonus -0.4 a speaking reading
  gets confidence 0.1, below the base, and \<^verbatim>\<open>GetTarget\<close> answers \<open>(0, 0, false)\<close>.
\<close>

theorem negative_bonus_counterexample:
  "0 \<le> Base (Confidence_cfg (test_config\<lparr>Confidence_cfg :=
            \<lparr>Base = 0.5, SpeakingBonus = - 0.4, StabilityBonus = 0\<rparr>\<rparr>))
   \<and> Base (Confidence_cfg (test_config\<lparr>Confidence_cfg :=
            \<lparr>Base = 0.5, SpeakingBonus = - 0.4, StabilityBonus = 0\<rparr>\<rparr>)) \<le> 1
   \<and> map_option (Confidence \<circ> latest \<circ> snd)
        (poll (clock_at 10) (Inr (mock_reading (pi / 2) True))
           (the (NewTracker (test_config\<lparr>Confidence_cfg :=
              \<lparr>Base = 0.5, SpeakingBonus = - 0.4, StabilityBonus = 0\<rparr>\<rparr>)))) = Some (1 / 10)
   \<and> map_option (GetTarget \<circ> snd)
        (poll (clock_at 10) (Inr (mock_reading (pi / 2) True))
           (the (NewTracker (test_config\<lparr>Confidence_cfg :=
              \<lparr>Base = 0.5, SpeakingBonus = - 0.4, StabilityBonus = 0\<rparr>\<rparr>)))) = Some (0, 0, False)"
  by (simp add: poll_def Let_def updateSpeakingLatch_def appendHistory_def
      notifySubscribers_def calculateConfidence_def Clamp_def NewTracker_def test_config_def
      mock_reading_def clock_at_def test_start_def zero_Reading_def zero_Result_def
      ToEvaAngle_def Reading.extend_def Result.fields_def time_Sub_def maxDuration_def
      minDuration_def Millisecond_def Milliseconds_def EstimatedX_def EstimatedY_def
      EstimatedDistance_def word_sless_alt
      GetTarget_def)

subsection \<open>Exponential moving average\<close>




subsection \<open>Stability bonus\<close>

text \<open>
  The variance of a window of equal smoothed angles \<open>v\<close> against an angle \<open>s\<close> with
  \<open>|v - s| \<le> 0.0999999\<close>, in binary64. With \<open>c = 26843545 / 2\<^sup>2\<^sup>8\<close>, just above the bound,
  \<open>c\<close>, \<open>c\<^sup>2\<close>, ..., \<open>5 c\<^sup>2\<close> are binary64 values and \<open>c\<^sup>2\<close> is below the binary64 value of
  0.01: the difference rounds to at most \<open>c\<close> in magnitude, its square to at most \<open>c\<^sup>2\<close>,
  the sum of \<open>k\<close> squares to at most \<open>k c\<^sup>2\<close> and the mean to at most \<open>c\<^sup>2\<close>.
\<close>

lemma is_float64_zero: "is_float64 0"
  by (rule is_float64I [of _ 0 0]) simp_all

lemma is_float64_near: "is_float64 (26843545 / 2 ^ 28)" "is_float64 (- (26843545 / 2 ^ 28))"
  by (rule is_float64I [of _ 26843545 "- 28"], simp_all)
     (rule is_float64I [of _ "- 26843545" "- 28"], simp_all)

lemma is_float64_squares:
  assumes "k \<le> 5"
  shows "is_float64 (real k * (720575908167025 / 2 ^ 56))"
  by (rule is_float64I [of _ "int k * 720575908167025" "- 56"]) (use assms in simp_all)

lemma diff_near:
  assumes "\<bar>v - s\<bar> \<le> 999999 / 10000000"
  shows "\<exists>d. fsub (Finite v) (Finite s) = Finite d \<and> \<bar>d\<bar> \<le> 26843545 / 2 ^ 28"
proof -
  have "(999999::real) / 10000000 \<le> 26843545 / 2 ^ 28" by simp
  with assms have "- (26843545 / 2 ^ 28) \<le> v + - s" "v + - s \<le> 26843545 / 2 ^ 28"
    by linarith+
  from round64_between [OF is_float64_near(2) is_float64_near(1) this]
  show ?thesis by (auto simp add: fsub_def)
qed

lemma square_near:
  assumes "\<bar>d\<bar> \<le> 26843545 / 2 ^ 28"
  shows "\<exists>q. fmul (Finite d) (Finite d) = Finite q \<and> 0 \<le> q \<and> q \<le> 720575908167025 / 2 ^ 56"
proof -
  have "\<bar>d\<bar> * \<bar>d\<bar> \<le> (26843545 / 2 ^ 28) * (26843545 / 2 ^ 28)"
    using assms by (intro mult_mono) simp_all
  then have hi: "d * d \<le> 1 * (720575908167025 / 2 ^ 56)" by (simp add: abs_mult_self_eq)
  have lo: "0 \<le> d * d" by simp
  have f: "is_float64 (1 * (720575908167025 / 2 ^ 56))"
    using is_float64_squares [of 1] by simp
  from round64_between [OF is_float64_zero f lo hi] show ?thesis by auto
qed

lemma accumulate_near:
  assumes "0 \<le> a" "a \<le> real k * (720575908167025 / 2 ^ 56)"
    and "0 \<le> q" "q \<le> 720575908167025 / 2 ^ 56" and "k < 5"
  shows "\<exists>w. fadd (Finite a) (Finite q) = Finite w \<and> 0 \<le> w
     \<and> w \<le> real (Suc k) * (720575908167025 / 2 ^ 56)"
proof -
  have lo: "0 \<le> a + q" using assms by simp
  have hi: "a + q \<le> real (Suc k) * (720575908167025 / 2 ^ 56)"
    using assms by (simp add: algebra_simps)
  have f: "is_float64 (real (Suc k) * (720575908167025 / 2 ^ 56))"
    using assms(5) by (intro is_float64_squares) simp
  from round64_between [OF is_float64_zero f lo hi] show ?thesis by auto
qed

lemma variance_near:
  assumes "\<forall>r \<in> set xs. SmoothedAngle_f64 r = Finite v"
    and "\<bar>v - s\<bar> \<le> 999999 / 10000000"
    and "0 \<le> a" "a \<le> real k * (720575908167025 / 2 ^ 56)" "k + length xs \<le> 5"
  shows "\<exists>w. foldl (\<lambda>variance r.
                 let diff = fsub (SmoothedAngle_f64 r) (Finite s)
                 in fadd variance (fmul diff diff)) (Finite a) xs = Finite w
     \<and> 0 \<le> w \<and> w \<le> real (k + length xs) * (720575908167025 / 2 ^ 56)"
  using assms
proof (induction xs arbitrary: a k)
  case Nil
  then show ?case by simp
next
  case (Cons r xs)
  from Cons.prems(1) have r: "SmoothedAngle_f64 r = Finite v" by simp
  from diff_near [OF Cons.prems(2)] obtain d where
    d: "fsub (Finite v) (Finite s) = Finite d" "\<bar>d\<bar> \<le> 26843545 / 2 ^ 28" by blast
  from square_near [OF d(2)] obtain q where
    q: "fmul (Finite d) (Finite d) = Finite q" "0 \<le> q" "q \<le> 720575908167025 / 2 ^ 56" by blast
  from Cons.prems(5) have k: "k < 5" by simp
  from accumulate_near [OF Cons.prems(3,4) q(2,3) k] obtain a' where
    a': "fadd (Finite a) (Finite q) = Finite a'" "0 \<le> a'"
      "a' \<le> real (Suc k) * (720575908167025 / 2 ^ 56)" by blast
  have rest: "\<forall>r \<in> set xs. SmoothedAngle_f64 r = Finite v" using Cons.prems(1) by simp
  have len: "Suc k + length xs \<le> 5" using Cons.prems(5) by simp
  from Cons.IH [OF rest Cons.prems(2) a'(2,3) len] obtain w where
    "foldl (\<lambda>variance r.
                 let diff = fsub (SmoothedAngle_f64 r) (Finite s)
                 in fadd variance (fmul diff diff)) (Finite a') xs = Finite w"
    "0 \<le> w" "w \<le> real (Suc k + length xs) * (720575908167025 / 2 ^ 56)" by blast
  then show ?case using r d(1) q(1) a'(1) by (simp add: Let_def)
qed

lemma round64_hundredth: "round64 (1 / 100) = Finite (5764607523034235 / 2 ^ 59)"
  by (subst round64_eval [of "- 7"]) (simp_all add: roundToEven_def Let_def)

lemma mean_near:
  assumes "0 \<le> w" "w \<le> real 5 * (720575908167025 / 2 ^ 56)"
  shows "flt (fdiv (Finite w) (Finite 5)) (round64 0.01)"
proof -
  have lo: "0 \<le> w / 5" using assms by simp
  have hi: "w / 5 \<le> 1 * (720575908167025 / 2 ^ 56)" using assms by simp
  have f: "is_float64 (1 * (720575908167025 / 2 ^ 56))"
    using is_float64_squares [of 1] by simp
  from round64_between [OF is_float64_zero f lo hi] obtain m where
    "round64 (w / 5) = Finite m" "m \<le> 1 * (720575908167025 / 2 ^ 56)" by blast
  then show ?thesis by (simp add: round64_hundredth)
qed

lemma calculateConfidence_f64_stable:
  assumes len: "5 \<le> length (history_f64 t)"
    and win: "\<forall>r \<in> set (drop (length (history_f64 t) - 5) (history_f64 t)).
                SmoothedAngle_f64 r = Finite v"
    and near: "\<bar>v - s\<bar> \<le> 999999 / 10000000"
  shows "calculateConfidence_f64 speaking (Finite s) t =
     Clamp_f64
       (fadd (if speaking
              then fadd (Base_f64 (Confidence_cfg_f64 (cfg_f64 t)))
                     (SpeakingBonus_f64 (Confidence_cfg_f64 (cfg_f64 t)))
              else Base_f64 (Confidence_cfg_f64 (cfg_f64 t)))
          (StabilityBonus_f64 (Confidence_cfg_f64 (cfg_f64 t))))
       (Finite 0) (Finite 1)"
proof -
  have l: "0 + length (drop (length (history_f64 t) - 5) (history_f64 t)) \<le> 5" by simp
  have l5: "length (drop (length (history_f64 t) - 5) (history_f64 t)) = 5" using len by simp
  have z: "(0::real) \<le> 0" "(0::real) \<le> real 0 * (720575908167025 / 2 ^ 56)" by simp_all
  from variance_near [OF win near z l] obtain w where
    w: "foldl (\<lambda>variance r.
                 let diff = fsub (SmoothedAngle_f64 r) (Finite s)
                 in fadd variance (fmul diff diff)) (Finite 0)
          (drop (length (history_f64 t) - 5) (history_f64 t)) = Finite w"
    "0 \<le> w" "w \<le> real (0 + length (drop (length (history_f64 t) - 5) (history_f64 t)))
                     * (720575908167025 / 2 ^ 56)" by blast
  from w(3) have "w \<le> real 5 * (720575908167025 / 2 ^ 56)" unfolding l5 by simp
  from mean_near [OF w(2) this] have "flt (fdiv (Finite w) (Finite 5)) (round64 0.01)" .
  then show ?thesis using len w(1) by (simp add: calculateConfidence_f64_def Let_def)
qed

lemma calculateConfidence_f64_cong:
  "cfg_f64 t = cfg_f64 u \<Longrightarrow> history_f64 t = history_f64 u \<Longrightarrow>
   calculateConfidence_f64 s a t = calculateConfidence_f64 s a u"
  by (simp add: calculateConfidence_f64_def Let_def)

lemma poll_f64_Inr:
  assumes "0 \<le> HistorySize_f64 (cfg_f64 t)"
  shows "\<exists>t'. poll_f64 m clk (Inr rd) t = Some (None, t') \<and> cfg_f64 t' = cfg_f64 t
     \<and> SpeakingLatched_f64 (latest_f64 t') =
          (Speaking_f64 rd
           \<or> time_Sub (clk_since clk) (speakingLatchedAt_f64 t) <s SpeakingLatchDur_f64 (cfg_f64 t))
     \<and> SmoothedAngle_f64 (latest_f64 t') =
          (if history_f64 t \<noteq> [] then
             fadd (fmul (EMAAlpha_f64 (cfg_f64 t)) (Angle_f64 rd))
               (fmul (fsub (Finite 1) (EMAAlpha_f64 (cfg_f64 t))) (SmoothedAngle_f64 (latest_f64 t)))
           else Angle_f64 rd)
     \<and> Confidence_f64 (latest_f64 t') =
          calculateConfidence_f64 (SpeakingLatched_f64 (latest_f64 t'))
            (SmoothedAngle_f64 (latest_f64 t')) t"
  using assms
  apply (simp add: poll_f64_def Let_def updateSpeakingLatch_f64_def appendHistory_f64_def
      notifySubscribers_f64_def Reading_f64.extend_def Result_f64.fields_def split: prod.splits)
  apply (auto intro: calculateConfidence_f64_cong)
  done

text \<open>
  C1, as amended. If at the start of a poll the last 5 entries of the history all have
  the finite smoothed angle \<open>v\<close> (and the history size is not negative), the poll on a
  reading returns, and when the smoothed angle \<open>s\<close> it computes is finite with
  \<open>|s - v| \<le> 0.0999999\<close> the confidence of its result is the sum, in binary64 and in
  the code's order, of the base, the speaking bonus (when the result is latched) and the
  stability bonus, clamped to \<open>[0, 1]\<close>.
\<close>

theorem stable_window_confidence:
  assumes len: "5 \<le> length (history_f64 t)"
    and win: "\<forall>r \<in> set (drop (length (history_f64 t) - 5) (history_f64 t)).
                SmoothedAngle_f64 r = Finite v"
    and hs: "0 \<le> HistorySize_f64 (cfg_f64 t)"
  shows "\<exists>t'. poll_f64 m clk (Inr rd) t = Some (None, t')
     \<and> (\<forall>s. SmoothedAngle_f64 (latest_f64 t') = Finite s \<and> \<bar>s - v\<bar> \<le> 0.0999999 \<longrightarrow>
          Confidence_f64 (latest_f64 t') =
            Clamp_f64
              (fadd (if SpeakingLatched_f64 (latest_f64 t')
                     then fadd (Base_f64 (Confidence_cfg_f64 (cfg_f64 t)))
                            (SpeakingBonus_f64 (Confidence_cfg_f64 (cfg_f64 t)))
                     else Base_f64 (Confidence_cfg_f64 (cfg_f64 t)))
                 (StabilityBonus_f64 (Confidence_cfg_f64 (cfg_f64 t))))
              (Finite 0) (Finite 1))"
proof -
  from poll_f64_Inr [OF hs, of m clk rd] obtain t' where
    p: "poll_f64 m clk (Inr rd) t = Some (None, t')"
    "Confidence_f64 (latest_f64 t') =
       calculateConfidence_f64 (SpeakingLatched_f64 (latest_f64 t'))
         (SmoothedAngle_f64 (latest_f64 t')) t"
    by blast
  have "Confidence_f64 (latest_f64 t') =
            Clamp_f64
              (fadd (if SpeakingLatched_f64 (latest_f64 t')
                     then fadd (Base_f64 (Confidence_cfg_f64 (cfg_f64 t)))
                            (SpeakingBonus_f64 (Confidence_cfg_f64 (cfg_f64 t)))
                     else Base_f64 (Confidence_cfg_f64 (cfg_f64 t)))
                 (StabilityBonus_f64 (Confidence_cfg_f64 (cfg_f64 t))))
              (Finite 0) (Finite 1)"
    if s: "SmoothedAngle_f64 (latest_f64 t') = Finite s" and near: "\<bar>s - v\<bar> \<le> 0.0999999" for s
  proof -
    from near have "\<bar>v - s\<bar> \<le> 999999 / 10000000" by (simp add: abs_minus_commute)
    from calculateConfidence_f64_stable [OF len win this] p(2) s show ?thesis by simp
  qed
  with p(1) show ?thesis by blast
qed

text \<open>
  The constants of the tests in binary64, their sums, and the values of the variance of
  five results at 0 against 0.5: all exact.
\<close>

lemma round64_decimals:
  "round64 (3 / 10) = Finite (5404319552844595 / 2 ^ 54)"
  "round64 (2 / 5) = Finite (3602879701896397 / 2 ^ 53)"
  "round64 (1 / 5) = Finite (3602879701896397 / 2 ^ 54)"
  "round64 (1 / 2) = Finite (1 / 2)"
     apply (subst round64_eval [of "- 2"], simp, simp, simp, simp add: roundToEven_def Let_def)
    apply (subst round64_eval [of "- 2"], simp, simp, simp, simp add: roundToEven_def Let_def)
   apply (subst round64_eval [of "- 3"], simp, simp, simp, simp add: roundToEven_def Let_def)
  apply (subst round64_eval [of "- 1"], simp, simp, simp, simp add: roundToEven_def Let_def)
  done

lemma round64_quarters:
  "round64 (- (1 / 2)) = Finite (- (1 / 2))"
  "round64 (1 / 4) = Finite (1 / 4)"
  "round64 (3 / 4) = Finite (3 / 4)"
  "round64 1 = Finite 1"
  "round64 (5 / 4) = Finite (5 / 4)"
      apply (rule round64_exactI [of _ "- 1" "- 1"]; simp)
     apply (rule round64_exactI [of _ 1 "- 2"]; simp)
    apply (rule round64_exactI [of _ 3 "- 2"]; simp)
   apply (rule round64_exactI [of _ 1 0]; simp)
  apply (rule round64_exactI [of _ 5 "- 2"]; simp)
  done

lemma round64_sums:
  "round64 (12610078956637389 / 18014398509481984) = Finite (3152519739159347 / 2 ^ 52)"
  "round64 (16212958658533785 / 18014398509481984) = Finite (2026619832316723 / 2 ^ 51)"
  "round64 (4 / 5) = Finite (3602879701896397 / 2 ^ 52)"
  "round64 (5854679515581645 / 4503599627370496) = Finite (5854679515581645 / 2 ^ 52)"
     apply (subst round64_eval [of "- 1"], simp, simp, simp, simp add: roundToEven_def Let_def)
    apply (subst round64_eval [of "- 1"], simp, simp, simp, simp add: roundToEven_def Let_def)
   apply (subst round64_eval [of "- 1"], simp, simp, simp, simp add: roundToEven_def Let_def)
  apply (subst round64_eval [of 0], simp, simp, simp, simp add: roundToEven_def Let_def)
  done

text \<open>
  Five polls of a silent source straight ahead leave a history of five results with
  smoothed angle 0.
\<close>

lemma steady_tracker_test:
  "steady_tracker confidence_test_config \<noteq> None
   \<and> cfg_f64 (the (steady_tracker confidence_test_config)) = confidence_test_config
   \<and> length (history_f64 (the (steady_tracker confidence_test_config))) = 5
   \<and> map SmoothedAngle_f64 (history_f64 (the (steady_tracker confidence_test_config)))
       = [Finite 0, Finite 0, Finite 0, Finite 0, Finite 0]
   \<and> SmoothedAngle_f64 (latest_f64 (the (steady_tracker confidence_test_config))) = Finite 0
   \<and> speakingLatchedAt_f64 (the (steady_tracker confidence_test_config)) = 0"
  by (simp add: poll_f64_def Let_def updateSpeakingLatch_f64_def appendHistory_f64_def
      notifySubscribers_f64_def calculateConfidence_f64_def Clamp_f64_def NewTracker_f64_def
      confidence_test_config_def reading_at_def clock_at_def test_start_def zero_Reading_f64_def
      zero_Result_f64_def Reading_f64.extend_def Result_f64.fields_def time_Sub_def
      maxDuration_def minDuration_def Millisecond_def Milliseconds_def EstimatedX_f64_def
      EstimatedY_f64_def EstimatedDistance_f64_def word_sless_alt steady_ticks_def
      steady_tracker_def unused_libm_def fgt_def fsub_def round64_zero round64_decimals)

text \<open>
  Witness of C1: after these five polls a speaking reading from the same direction gets
  base, speaking bonus and stability bonus. In binary64 \<open>(0.3 + 0.4) + 0.2\<close> is
  \<^verbatim>\<open>0.8999999999999999\<close>, one unit in the last place below 0.9.
\<close>

theorem stable_window_confidence_witness:
  "steady_tracker confidence_test_config \<noteq> None
   \<and> 5 \<le> length (history_f64 (the (steady_tracker confidence_test_config)))
   \<and> map SmoothedAngle_f64
         (drop (length (history_f64 (the (steady_tracker confidence_test_config))) - 5)
            (history_f64 (the (steady_tracker confidence_test_config))))
       = [Finite 0, Finite 0, Finite 0, Finite 0, Finite 0]
   \<and> 0 \<le> HistorySize_f64 (cfg_f64 (the (steady_tracker confidence_test_config)))
   \<and> (\<exists>t'. poll_f64 unused_libm (clock_at 30) (Inr (reading_at (Finite 0) True))
               (the (steady_tracker confidence_test_config)) = Some (None, t')
          \<and> SmoothedAngle_f64 (latest_f64 t') = Finite 0
          \<and> \<bar>0 - 0 :: real\<bar> \<le> 0.0999999
          \<and> SpeakingLatched_f64 (latest_f64 t')
          \<and> Confidence_f64 (latest_f64 t') = Finite (2026619832316723 / 2 ^ 51)
          \<and> flt (Confidence_f64 (latest_f64 t')) (round64 0.9))"
proof -
  let ?t = "the (steady_tracker confidence_test_config)"
  note st = steady_tracker_test
  have len: "5 \<le> length (history_f64 ?t)" using st by simp
  have m: "map SmoothedAngle_f64 (drop (length (history_f64 ?t) - 5) (history_f64 ?t))
      = [Finite 0, Finite 0, Finite 0, Finite 0, Finite 0]"
    using st by simp
  have win: "\<forall>r \<in> set (drop (length (history_f64 ?t) - 5) (history_f64 ?t)).
      SmoothedAngle_f64 r = Finite 0"
  proof
    fix r assume "r \<in> set (drop (length (history_f64 ?t) - 5) (history_f64 ?t))"
    then have "SmoothedAngle_f64 r
        \<in> set (map SmoothedAngle_f64 (drop (length (history_f64 ?t) - 5) (history_f64 ?t)))"
      by simp
    then show "SmoothedAngle_f64 r = Finite 0" unfolding m by simp
  qed
  have hs: "0 \<le> HistorySize_f64 (cfg_f64 ?t)" using st by (simp add: confidence_test_config_def)
  from stable_window_confidence [OF len win hs, of unused_libm "clock_at 30" "reading_at (Finite 0) True"]
  obtain t' where
    p: "poll_f64 unused_libm (clock_at 30) (Inr (reading_at (Finite 0) True)) ?t = Some (None, t')"
    and q: "\<forall>s. SmoothedAngle_f64 (latest_f64 t') = Finite s \<and> \<bar>s - 0\<bar> \<le> 0.0999999 \<longrightarrow>
          Confidence_f64 (latest_f64 t') =
            Clamp_f64
              (fadd (if SpeakingLatched_f64 (latest_f64 t')
                     then fadd (Base_f64 (Confidence_cfg_f64 (cfg_f64 ?t)))
                            (SpeakingBonus_f64 (Confidence_cfg_f64 (cfg_f64 ?t)))
                     else Base_f64 (Confidence_cfg_f64 (cfg_f64 ?t)))
                 (StabilityBonus_f64 (Confidence_cfg_f64 (cfg_f64 ?t))))
              (Finite 0) (Finite 1)"
    by blast
  from poll_f64_Inr [OF hs, of unused_libm "clock_at 30" "reading_at (Finite 0) True"] p
  have s: "SmoothedAngle_f64 (latest_f64 t') = Finite 0" "SpeakingLatched_f64 (latest_f64 t')"
    using st by (auto simp add: reading_at_def zero_Reading_f64_def confidence_test_config_def
        fsub_def round64_zero round64_decimals)
  with q have "Confidence_f64 (latest_f64 t') =
            Clamp_f64
              (fadd (fadd (Base_f64 (Confidence_cfg_f64 (cfg_f64 ?t)))
                            (SpeakingBonus_f64 (Confidence_cfg_f64 (cfg_f64 ?t))))
                 (StabilityBonus_f64 (Confidence_cfg_f64 (cfg_f64 ?t))))
              (Finite 0) (Finite 1)" by simp
  moreover have cfg: "cfg_f64 ?t = confidence_test_config" using st by simp
  ultimately have c: "Confidence_f64 (latest_f64 t') = Finite (2026619832316723 / 2 ^ 51)"
    unfolding cfg by (simp add: confidence_test_config_def Clamp_f64_def fgt_def round64_decimals
        round64_sums)
  have n: "round64 (9 / 10) = Finite (8106479329266893 / 2 ^ 53)"
    by (subst round64_eval [of "- 1"], simp, simp, simp, simp add: roundToEven_def Let_def)
  have "flt (Confidence_f64 (latest_f64 t')) (round64 0.9)" unfolding c by (simp add: n)
  with st len m hs p s c show ?thesis by auto
qed

text \<open>
  C1 as stated fails twice. After five results at smoothed angle 0, a reading at angle 1
  moves the smoothed angle to 0.5; the variance against that new angle is 0.25, no
  stability bonus is added, and the confidence is the base 0.3 and not at least
  \<open>0.3 + 0.2\<close>. And with base 0.8 and stability bonus 0.5 a steady reading gets the
  clamped confidence 1, which is below \<open>0.8 + 0.5\<close>.
\<close>

theorem stable_window_counterexample:
  "map SmoothedAngle_f64 (history_f64 (the (steady_tracker confidence_test_config)))
     = [Finite 0, Finite 0, Finite 0, Finite 0, Finite 0]
   \<and> map_option (\<lambda>(e, t). (SmoothedAngle_f64 (latest_f64 t), SpeakingLatched_f64 (latest_f64 t),
                             Confidence_f64 (latest_f64 t)))
        (poll_f64 unused_libm (clock_at 30) (Inr (reading_at (Finite 1) False))
           (the (steady_tracker confidence_test_config)))
      = Some (Finite (1 / 2), False, round64 0.3)
   \<and> \<not> fle (fadd (Base_f64 (Confidence_cfg_f64 confidence_test_config))
               (StabilityBonus_f64 (Confidence_cfg_f64 confidence_test_config)))
          (round64 0.3)
   \<and> map SmoothedAngle_f64 (history_f64 (the (steady_tracker
         (confidence_test_config\<lparr>Confidence_cfg_f64 :=
            \<lparr>Base_f64 = round64 0.8, SpeakingBonus_f64 = round64 0.4,
             StabilityBonus_f64 = round64 0.5\<rparr>\<rparr>))))
     = [Finite 0, Finite 0, Finite 0, Finite 0, Finite 0]
   \<and> map_option (\<lambda>(e, t). (SmoothedAngle_f64 (latest_f64 t), SpeakingLatched_f64 (latest_f64 t),
                             Confidence_f64 (latest_f64 t)))
        (poll_f64 unused_libm (clock_at 30) (Inr (reading_at (Finite 0) False))
           (the (steady_tracker
              (confidence_test_config\<lparr>Confidence_cfg_f64 :=
                 \<lparr>Base_f64 = round64 0.8, SpeakingBonus_f64 = round64 0.4,
                  StabilityBonus_f64 = round64 0.5\<rparr>\<rparr>))))
      = Some (Finite 0, False, Finite 1)
   \<and> \<not> fle (fadd (round64 0.8) (round64 0.5)) (Finite 1)"
  by (simp add: poll_f64_def Let_def updateSpeakingLatch_f64_def appendHistory_f64_def
      notifySubscribers_f64_def calculateConfidence_f64_def Clamp_f64_def NewTracker_f64_def
      confidence_test_config_def reading_at_def clock_at_def test_start_def zero_Reading_f64_def
      zero_Result_f64_def Reading_f64.extend_def Result_f64.fields_def time_Sub_def
      maxDuration_def minDuration_def Millisecond_def Milliseconds_def EstimatedX_f64_def
      EstimatedY_f64_def EstimatedDistance_f64_def word_sless_alt steady_ticks_def
      steady_tracker_def unused_libm_def fgt_def fsub_def round64_zero round64_decimals
      round64_quarters round64_sums round64_hundredth)

subsection \<open>Speaking latch\<close>

lemma poll_latchedAt:
  assumes hs: "0 \<le> HistorySize (cfg t)"
  shows "\<exists>e t'. poll clk got t = Some (e, t') \<and> cfg t' = cfg t
     \<and> speakingLatchedAt t' =
         (case got of
            Inl err \<Rightarrow> speakingLatchedAt t
          | Inr rd \<Rightarrow> if Speaking rd then clk_latch clk else speakingLatchedAt t)"
proof (cases got)
  case (Inl e)
  then show ?thesis by (simp add: poll_Inl)
next
  case (Inr rd)
  then show ?thesis using poll_Inr [OF hs, of clk rd] by auto
qed

lemma run_polls_latch_between:
  assumes "0 \<le> HistorySize (cfg t)"
    and "\<forall>(clk, got) \<in> set ticks. lo \<le> clk_latch clk \<and> clk_latch clk \<le> hi"
    and "lo \<le> speakingLatchedAt t" "speakingLatchedAt t \<le> hi"
  shows "\<exists>t'. run_polls ticks t = Some t' \<and> cfg t' = cfg t
     \<and> lo \<le> speakingLatchedAt t' \<and> speakingLatchedAt t' \<le> hi"
  using assms
proof (induction ticks arbitrary: t)
  case Nil
  then show ?case by simp
next
  case (Cons tick ticks)
  obtain clk got where tick: "tick = (clk, got)" by (cases tick)
  from poll_latchedAt [OF Cons.prems(1), of clk got] obtain e t1 where
    p: "poll clk got t = Some (e, t1)" "cfg t1 = cfg t"
    "speakingLatchedAt t1 =
         (case got of
            Inl err \<Rightarrow> speakingLatchedAt t
          | Inr rd \<Rightarrow> if Speaking rd then clk_latch clk else speakingLatchedAt t)"
    by blast
  have b: "lo \<le> speakingLatchedAt t1 \<and> speakingLatchedAt t1 \<le> hi"
    using p(3) Cons.prems tick by (auto split: sum.splits)
  from Cons.IH [of t1] Cons.prems p(2) b obtain t' where
    "run_polls ticks t1 = Some t'" "cfg t' = cfg t1"
    "lo \<le> speakingLatchedAt t'" "speakingLatchedAt t' \<le> hi"
    by auto
  with p tick show ?case by simp
qed

lemma run_polls_quiet:
  assumes "0 \<le> HistorySize (cfg t)"
    and "\<forall>(clk, got) \<in> set ticks. \<forall>rd. got = Inr rd \<longrightarrow> \<not> Speaking rd"
  shows "\<exists>t'. run_polls ticks t = Some t' \<and> cfg t' = cfg t
     \<and> speakingLatchedAt t' = speakingLatchedAt t"
  using assms
proof (induction ticks arbitrary: t)
  case Nil
  then show ?case by simp
next
  case (Cons tick ticks)
  obtain clk got where tick: "tick = (clk, got)" by (cases tick)
  from poll_latchedAt [OF Cons.prems(1), of clk got] obtain e t1 where
    p: "poll clk got t = Some (e, t1)" "cfg t1 = cfg t"
    "speakingLatchedAt t1 =
         (case got of
            Inl err \<Rightarrow> speakingLatchedAt t
          | Inr rd \<Rightarrow> if Speaking rd then clk_latch clk else speakingLatchedAt t)"
    by blast
  have b: "speakingLatchedAt t1 = speakingLatchedAt t"
    using p(3) Cons.prems tick by (auto split: sum.splits)
  from Cons.IH [of t1] Cons.prems p(2) obtain t' where
    "run_polls ticks t1 = Some t'" "cfg t' = cfg t1"
    "speakingLatchedAt t' = speakingLatchedAt t1"
    by auto
  with p b tick show ?case by simp
qed

text \<open>
  C3, as amended. Let a poll observe a reading with \<^verbatim>\<open>speaking = true\<close> at the instant
  \<open>t\<close> (the \<^verbatim>\<open>time.Now()\<close> of \<^verbatim>\<open>updateSpeakingLatch\<close>), let any polls follow, and
  then a poll whose reading has \<^verbatim>\<open>speaking = false\<close> at the instant \<open>t'\<close> (the one
  \<^verbatim>\<open>time.Since\<close> reads). All these polls return. If \<open>t \<le> t' < t + \<close>
  \<^verbatim>\<open>speaking_latch_duration\<close> and the clock did not run backwards in between, the last
  result has \<^verbatim>\<open>speaking_latched = true\<close>. If \<open>t'\<close> is at or after \<open>t + \<close>
  \<^verbatim>\<open>speaking_latch_duration\<close> and no poll in between observed \<^verbatim>\<open>speaking = true\<close>,
  it has \<^verbatim>\<open>speaking_latched = false\<close>.
\<close>

theorem speaking_latch_window:
  assumes hs: "0 \<le> HistorySize (cfg t0)" and sp: "Speaking r0" and quiet: "\<not> Speaking rF"
  shows "\<exists>t1 t2 tF. poll clk0 (Inr r0) t0 = Some (None, t1)
     \<and> run_polls ticks t1 = Some t2
     \<and> poll clkF (Inr rF) t2 = Some (None, tF)
     \<and> ((\<forall>(clk, got) \<in> set ticks. clk_latch clk0 \<le> clk_latch clk \<and> clk_latch clk \<le> clk_since clkF)
          \<and> clk_latch clk0 \<le> clk_since clkF
          \<and> clk_since clkF < clk_latch clk0 + sint (SpeakingLatchDur (cfg t0))
          \<longrightarrow> SpeakingLatched (latest tF))
     \<and> ((\<forall>(clk, got) \<in> set ticks. \<forall>rd. got = Inr rd \<longrightarrow> \<not> Speaking rd)
          \<and> clk_latch clk0 + sint (SpeakingLatchDur (cfg t0)) \<le> clk_since clkF
          \<longrightarrow> \<not> SpeakingLatched (latest tF))"
proof -
  from poll_Inr [OF hs, of clk0 r0] sp obtain t1 where
    p1: "poll clk0 (Inr r0) t0 = Some (None, t1)" "cfg t1 = cfg t0"
    "speakingLatchedAt t1 = clk_latch clk0"
    by auto
  have hs1: "0 \<le> HistorySize (cfg t1)" using hs p1(2) by simp
  from run_polls_total [OF hs1, of ticks]
  obtain t2 where r: "run_polls ticks t1 = Some t2" "cfg t2 = cfg t1" by blast
  have hs2: "0 \<le> HistorySize (cfg t2)" using hs1 r(2) by simp
  from poll_Inr [OF hs2, of clkF rF] quiet obtain tF where
    pF: "poll clkF (Inr rF) t2 = Some (None, tF)"
    "SpeakingLatched (latest tF) =
       (time_Sub (clk_since clkF) (speakingLatchedAt t2) <s SpeakingLatchDur (cfg t2))"
    by auto
  have inside: "SpeakingLatched (latest tF)"
    if o: "\<forall>(clk, got) \<in> set ticks. clk_latch clk0 \<le> clk_latch clk \<and> clk_latch clk \<le> clk_since clkF"
      and a: "clk_latch clk0 \<le> clk_since clkF"
      and w: "clk_since clkF < clk_latch clk0 + sint (SpeakingLatchDur (cfg t0))"
  proof -
    from run_polls_latch_between [OF hs1 o, of ] p1(3) a r(1)
    have b: "clk_latch clk0 \<le> speakingLatchedAt t2" "speakingLatchedAt t2 \<le> clk_since clkF"
      by auto
    have "clk_since clkF < speakingLatchedAt t2 + sint (SpeakingLatchDur (cfg t2))"
      using b(1) w r(2) p1(2) by simp
    from time_Sub_lt [OF b(2) this] show ?thesis using pF(2) by simp
  qed
  have outside: "\<not> SpeakingLatched (latest tF)"
    if q: "\<forall>(clk, got) \<in> set ticks. \<forall>rd. got = Inr rd \<longrightarrow> \<not> Speaking rd"
      and w: "clk_latch clk0 + sint (SpeakingLatchDur (cfg t0)) \<le> clk_since clkF"
  proof -
    from run_polls_quiet [OF hs1 q] r(1) p1(3)
    have "speakingLatchedAt t2 = clk_latch clk0" by auto
    then have "speakingLatchedAt t2 + sint (SpeakingLatchDur (cfg t2)) \<le> clk_since clkF"
      using w r(2) p1(2) by simp
    from time_Sub_ge [OF this] show ?thesis using pF(2) by simp
  qed
  from p1(1) r(1) pF(1) inside outside show ?thesis by blast
qed

text \<open>
  Witness of C3: the second scenario of the specification (latch 50 ms). Speech at 0 ms,
  silence from 30 ms on: latched at 40 ms, not latched at 110 ms.
\<close>

theorem speaking_latch_window_witness:
  "0 \<le> HistorySize (cfg (the (NewTracker test_config)))
   \<and> Speaking (mock_reading (pi / 2) True)
   \<and> \<not> Speaking (mock_reading (pi / 2) False)
   \<and> clk_latch (clock_at 0) \<le> clk_latch (clock_at 30)
   \<and> clk_latch (clock_at 30) \<le> clk_since (clock_at 40)
   \<and> clk_latch (clock_at 0) \<le> clk_since (clock_at 40)
   \<and> clk_since (clock_at 40)
        < clk_latch (clock_at 0) + sint (SpeakingLatchDur (cfg (the (NewTracker test_config))))
   \<and> (\<exists>t1 t2 tF.
          poll (clock_at 0) (Inr (mock_reading (pi / 2) True)) (the (NewTracker test_config))
            = Some (None, t1)
          \<and> run_polls [(clock_at 30, Inr (mock_reading (pi / 2) False))] t1 = Some t2
          \<and> poll (clock_at 40) (Inr (mock_reading (pi / 2) False)) t2 = Some (None, tF)
          \<and> SpeakingLatched (latest tF))
   \<and> clk_latch (clock_at 0) + sint (SpeakingLatchDur (cfg (the (NewTracker test_config))))
        \<le> clk_since (clock_at 110)
   \<and> (\<exists>t1 t2 tF.
          poll (clock_at 0) (Inr (mock_reading (pi / 2) True)) (the (NewTracker test_config))
            = Some (None, t1)
          \<and> run_polls [(clock_at 30, Inr (mock_reading (pi / 2) False))] t1 = Some t2
          \<and> poll (clock_at 110) (Inr (mock_reading (pi / 2) False)) t2 = Some (None, tF)
          \<and> \<not> SpeakingLatched (latest tF))"
proof -
  let ?t0 = "the (NewTracker test_config)"
  let ?sp = "mock_reading (pi / 2) True"
  let ?q = "mock_reading (pi / 2) False"
  have hs: "0 \<le> HistorySize (cfg ?t0)" by (simp add: NewTracker_def test_config_def)
  have sp: "Speaking ?sp" and q: "\<not> Speaking ?q"
    by (simp_all add: mock_reading_def zero_Reading_def)
  have d: "sint (SpeakingLatchDur (cfg ?t0)) = 50000000"
    by (simp add: NewTracker_def test_config_def Millisecond_def)
  have o: "clk_latch (clock_at 0) \<le> clk_latch (clock_at 30)"
    "clk_latch (clock_at 30) \<le> clk_since (clock_at 40)"
    "clk_latch (clock_at 0) \<le> clk_since (clock_at 40)"
    "clk_since (clock_at 40) < clk_latch (clock_at 0) + sint (SpeakingLatchDur (cfg ?t0))"
    "clk_latch (clock_at 0) + sint (SpeakingLatchDur (cfg ?t0)) \<le> clk_since (clock_at 110)"
    unfolding d by (simp_all add: clock_at_def Let_def)
  have q1: "\<forall>(clk, got) \<in> set [(clock_at 30, Inr ?q)].
      clk_latch (clock_at 0) \<le> clk_latch clk \<and> clk_latch clk \<le> clk_since (clock_at 40)"
    using o by simp
  have q2: "\<forall>(clk, got) \<in> set [(clock_at 30, Inr ?q)]. \<forall>rd. got = Inr rd \<longrightarrow> \<not> Speaking rd"
    using q by simp
  from speaking_latch_window [OF hs sp q, of "clock_at 0" "[(clock_at 30, Inr ?q)]" "clock_at 40"]
    q1 o
  have a: "\<exists>t1 t2 tF.
          poll (clock_at 0) (Inr ?sp) ?t0 = Some (None, t1)
          \<and> run_polls [(clock_at 30, Inr ?q)] t1 = Some t2
          \<and> poll (clock_at 40) (Inr ?q) t2 = Some (None, tF)
          \<and> SpeakingLatched (latest tF)"
    by blast
  from speaking_latch_window [OF hs sp q, of "clock_at 0" "[(clock_at 30, Inr ?q)]" "clock_at 110"]
    q2 o
  have b: "\<exists>t1 t2 tF.
          poll (clock_at 0) (Inr ?sp) ?t0 = Some (None, t1)
          \<and> run_polls [(clock_at 30, Inr ?q)] t1 = Some t2
          \<and> poll (clock_at 110) (Inr ?q) t2 = Some (None, tF)
          \<and> \<not> SpeakingLatched (latest tF)"
    by blast
  from hs sp q o a b show ?thesis by blast
qed

text \<open>
  C3 as stated fails in its second half: a later reading with \<^verbatim>\<open>speaking = true\<close>
  restarts the window. Speech at 0 ms and again at 40 ms, silence at 50 ms: the poll at
  50 ms is at \<open>t + \<close>\<^verbatim>\<open>speaking_latch_duration\<close> for \<open>t = 0\<close> ms, and its result is
  still latched.
\<close>

theorem speaking_latch_restart_counterexample:
  "Speaking (mock_reading (pi / 2) True)
   \<and> \<not> Speaking (mock_reading (pi / 2) False)
   \<and> clk_latch (clock_at 0) + sint (SpeakingLatchDur test_config) \<le> clk_since (clock_at 50)
   \<and> map_option (SpeakingLatched \<circ> latest)
        (run_polls [(clock_at 0, Inr (mock_reading (pi / 2) True)),
                    (clock_at 40, Inr (mock_reading (pi / 2) True)),
                    (clock_at 50, Inr (mock_reading (pi / 2) False))]
           (the (NewTracker test_config))) = Some True"
  by (simp add: poll_def Let_def updateSpeakingLatch_def appendHistory_def
      notifySubscribers_def calculateConfidence_def Clamp_def NewTracker_def test_config_def
      mock_reading_def clock_at_def test_start_def zero_Reading_def zero_Result_def
      ToEvaAngle_def Reading.extend_def Result.fields_def time_Sub_def maxDuration_def
      minDuration_def Millisecond_def Milliseconds_def EstimatedX_def EstimatedY_def
      EstimatedDistance_def word_sless_alt)

section \<open>Properties of the USB source\<close>

lemma USBSource_Close_closed: "closed_usb (fst (snd (USBSource_Close u)))"
  by (simp add: USBSource_Close_def Let_def split: option.splits prod.splits)

lemma USBSource_Close_nil: "fst (USBSource_Close u) = None"
  by (simp add: USBSource_Close_def Let_def split: option.splits prod.splits)

lemma USBSource_calls_closed:
  assumes "closed_usb u"
  shows "USBSource_calls f calls u =
     (map (\<lambda>c. case c of
                   CallGetDOA env \<Rightarrow> ReturnGetDOA (Inl DeviceClosed)
                 | CallClose \<Rightarrow> ReturnClose None) calls,
      u, [])"
  using assms
proof (induction calls)
  case Nil
  then show ?case by simp
next
  case (Cons c calls)
  then show ?case
    by (cases c) (simp_all add: USBSource_GetDOA_def USBSource_Close_def)
qed

text \<open>
  C9. \<^verbatim>\<open>Close\<close> on the USB source returns nil, and a second \<^verbatim>\<open>Close\<close> returns nil
  again, changes nothing and touches nothing; the mock's \<^verbatim>\<open>Close\<close> returns nil both
  times. After the USB source's \<^verbatim>\<open>Close\<close>, \<^verbatim>\<open>GetDOA\<close> returns the error
  \<^verbatim>\<open>device closed\<close> with the state unchanged and no device operation, and so does every
  \<^verbatim>\<open>GetDOA\<close> of any sequence of later \<^verbatim>\<open>GetDOA\<close> and \<^verbatim>\<open>Close\<close> calls.
\<close>

theorem close_twice_then_closed:
  "fst (USBSource_Close u) = None
   \<and> USBSource_Close (fst (snd (USBSource_Close u))) = (None, fst (snd (USBSource_Close u)), [])
   \<and> fst (MockSource_Close m) = None
   \<and> fst (MockSource_Close (snd (MockSource_Close m))) = None
   \<and> USBSource_GetDOA f env (fst (snd (USBSource_Close u)))
        = (Inl DeviceClosed, fst (snd (USBSource_Close u)), [])
   \<and> USBSource_calls f calls (fst (snd (USBSource_Close u)))
        = (map (\<lambda>c. case c of
                   CallGetDOA env \<Rightarrow> ReturnGetDOA (Inl DeviceClosed)
                 | CallClose \<Rightarrow> ReturnClose None) calls,
           fst (snd (USBSource_Close u)), [])"
proof -
  have c: "closed_usb (fst (snd (USBSource_Close u)))" by (rule USBSource_Close_closed)
  have "USBSource_Close (fst (snd (USBSource_Close u))) = (None, fst (snd (USBSource_Close u)), [])"
    using c by (simp add: USBSource_Close_def)
  moreover have "USBSource_GetDOA f env (fst (snd (USBSource_Close u)))
        = (Inl DeviceClosed, fst (snd (USBSource_Close u)), [])"
    using c by (simp add: USBSource_GetDOA_def)
  ultimately show ?thesis
    using USBSource_Close_nil [of u] USBSource_calls_closed [OF c, of f calls]
    by (simp add: MockSource_Close_def)
qed

text \<open>
  Witness of C9: the source opened on device 1. The first \<^verbatim>\<open>Close\<close> closes the device
  and the context; after it nothing touches them.
\<close>

theorem close_twice_then_closed_witness:
  "NewUSBSource (Inr (Some 1))
     = (Inr opened_source, [NewContext, OpenDeviceWithVIDPID VendorID ProductID, SetAutoDetach 1])
   \<and> USBSource_Close opened_source
     = (None, opened_source\<lparr>closed_usb := True, dev := None, ctx := False\<rparr>,
        [DeviceClose 1, ContextClose])
   \<and> USBSource_Close (opened_source\<lparr>closed_usb := True, dev := None, ctx := False\<rparr>)
     = (None, opened_source\<lparr>closed_usb := True, dev := None, ctx := False\<rparr>, [])
   \<and> fst (MockSource_Close (NewMockSource 0)) = None
   \<and> fst (MockSource_Close (snd (MockSource_Close (NewMockSource 0)))) = None
   \<and> USBSource_GetDOA (\<lambda>bits. 0) transfer_succeeds
        (opened_source\<lparr>closed_usb := True, dev := None, ctx := False\<rparr>)
     = (Inl DeviceClosed, opened_source\<lparr>closed_usb := True, dev := None, ctx := False\<rparr>, [])
   \<and> USBSource_calls (\<lambda>bits. 0) [CallGetDOA transfer_succeeds, CallClose, CallGetDOA transfer_fails]
        (opened_source\<lparr>closed_usb := True, dev := None, ctx := False\<rparr>)
     = ([ReturnGetDOA (Inl DeviceClosed), ReturnClose None, ReturnGetDOA (Inl DeviceClosed)],
        opened_source\<lparr>closed_usb := True, dev := None, ctx := False\<rparr>, [])"
proof -
  have n: "NewUSBSource (Inr (Some 1))
     = (Inr opened_source, [NewContext, OpenDeviceWithVIDPID VendorID ProductID, SetAutoDetach 1])"
    by (simp add: NewUSBSource_def NewUSBSourceWithConfig_def openDevice_def
        DefaultUSBSourceConfig_def opened_source_def)
  have c: "USBSource_Close opened_source
     = (None, opened_source\<lparr>closed_usb := True, dev := None, ctx := False\<rparr>,
        [DeviceClose 1, ContextClose])"
    by (simp add: USBSource_Close_def opened_source_def Let_def)
  from close_twice_then_closed [of opened_source "NewMockSource 0" "\<lambda>bits. 0" transfer_succeeds
      "[CallGetDOA transfer_succeeds, CallClose, CallGetDOA transfer_fails]"]
  show ?thesis unfolding c n by (simp del: USBSource_calls.simps)
qed

text \<open>
  C4 at a failing input: a source configured with an initial backoff of 200 ms. It starts
  with that backoff; after one failed and one successful transfer the error count is 0,
  as claimed, but the backoff is the default's 100 ms, not the configured 200 ms.
\<close>

theorem recordSuccess_ignores_configured_backoff:
  "(case NewUSBSourceWithConfig custom_usb_config (Inr (Some 1)) of
      (Inl err, ops) \<Rightarrow> False
    | (Inr u, ops) \<Rightarrow>
        reconnectBackoff u = InitialBackoff custom_usb_config
        \<and> (case USBSource_calls f [CallGetDOA transfer_fails] u of
              (rs, u, ops) \<Rightarrow> consecutiveErrors u = 1
                 \<and> reconnectBackoff u = InitialBackoff custom_usb_config)
        \<and> (case USBSource_calls f [CallGetDOA transfer_fails, CallGetDOA transfer_succeeds] u of
              (rs, u, ops) \<Rightarrow> consecutiveErrors u = 0
                 \<and> reconnectBackoff u = 100 * Millisecond
                 \<and> reconnectBackoff u \<noteq> InitialBackoff custom_usb_config))
   \<and> InitialBackoff custom_usb_config = 200 * Millisecond"
  by (simp add: NewUSBSourceWithConfig_def openDevice_def recordError_def recordSuccess_def
      reconnect_def USBSource_GetDOA_def DefaultUSBSourceConfig_def Millisecond_def Second_def
      Let_def word_sle_eq word_sless_alt VendorID_def ProductID_def gpoResID_def doaCmdID_def readEnhancedData_def
      enhanced_values_def sumEnergy_def aecResID_def aecSpEnergyCmdID_def aecAzimuthCmdID_def
      custom_usb_config_def transfer_fails_def transfer_succeeds_def)

section \<open>Properties of the cloud client\<close>

text \<open>
  C8. On a freshly constructed client (\<^verbatim>\<open>Connect\<close> not called) every
  \<^verbatim>\<open>SendMessage\<close> returns the error \<^verbatim>\<open>not connected\<close>, and
  \<^verbatim>\<open>SendFrame(640, 480, bytes, 1)\<close> returns an error, which is \<^verbatim>\<open>not connected\<close>
  whenever \<^verbatim>\<open>json.Marshal\<close> accepts the frame payload (a struct of integers and
  strings); neither changes the client nor touches the network, and \<^verbatim>\<open>messagesSent\<close>
  is 0.
\<close>

theorem send_when_disconnected:
  "SendMessage env msg (NewClient c) = (Some NotConnected, NewClient c, [])
   \<and> (\<exists>err. SendFrame json_Marshal EncodeToString now env 640 480 jpegData 1 (NewClient c)
               = (Some err, NewClient c, []))
   \<and> ((\<exists>raw. json_Marshal \<lparr>Width = 640, Height = 480, Format = ''jpeg'',
                 Data_frame = EncodeToString jpegData, FrameID = 1\<rparr> = Inr raw)
        \<longrightarrow> SendFrame json_Marshal EncodeToString now env 640 480 jpegData 1 (NewClient c)
               = (Some NotConnected, NewClient c, []))
   \<and> messagesSent (NewClient c) = 0"
  by (auto simp add: SendMessage_def SendFrame_def NewFrameMessage_def NewMessage_def
      NewClient_def split: sum.splits)

text \<open>
  Witness of C8: \<^verbatim>\<open>TestSendFrameNotConnected\<close>, the frame \<^verbatim>\<open>[]byte("test")\<close>, with
  a \<^verbatim>\<open>json.Marshal\<close> that accepts the payload.
\<close>

theorem send_when_disconnected_witness:
  "SendMessage no_send \<lparr>Type = TypePong, Timestamp_msg = 0, Data = None\<rparr> (NewClient DefaultConfig)
     = (Some NotConnected, NewClient DefaultConfig, [])
   \<and> SendFrame (\<lambda>d. Inr ''{}'') (\<lambda>b. ''dGVzdA=='') 0 no_send 640 480 [116, 101, 115, 116] 1
        (NewClient DefaultConfig)
     = (Some NotConnected, NewClient DefaultConfig, [])
   \<and> messagesSent (NewClient DefaultConfig) = 0"
proof -
  have m: "\<exists>raw. (\<lambda>d :: FrameData. (Inr ''{}'' :: error + string))
       \<lparr>Width = 640, Height = 480, Format = ''jpeg'',
        Data_frame = (\<lambda>b :: 8 word list. ''dGVzdA=='') [116, 101, 115, 116], FrameID = 1\<rparr> = Inr raw"
    by simp
  from send_when_disconnected [of no_send "\<lparr>Type = TypePong, Timestamp_msg = 0, Data = None\<rparr>"
      DefaultConfig "\<lambda>d. Inr ''{}''" "\<lambda>b. ''dGVzdA==''" 0 "[116, 101, 115, 116]"] m
  show ?thesis by blast
qed













end
